theory Spec2Isabelle
  imports Main "HOL-Library.Monad_Syntax"
begin

section \<open>The preload script of the UniFi Protect viewer\<close>

text \<open>
  This theory embeds \<^verbatim>\<open>src/js/preload.js\<close>: the polling primitive \<^verbatim>\<open>waitUntil\<close>, the
  DOM helpers, the version detector, the login driver, the three live-view drivers and the
  orchestrator \<^verbatim>\<open>run\<close> with its session watchdog.

  Time is counted in milliseconds as a natural number; it is the clock that
  \<^verbatim>\<open>new Date().getTime()\<close> reads. The host page is not part of the repository: it appears as a
  \<^emph>\<open>world\<close>, a function from the time to what the page shows at that time. What the script
  itself does to the page (styles it sets, events it dispatches, errors it logs) is collected
  in a record that every operation takes and returns.
\<close>

subsection \<open>Constants of \<^verbatim>\<open>CONFIG\<close>\<close>

definition TIMEOUTS_DEFAULT_WAIT :: int where "TIMEOUTS_DEFAULT_WAIT = 60000"
definition TIMEOUTS_LOADING_TIMEOUT :: int where "TIMEOUTS_LOADING_TIMEOUT = 10000"
definition TIMEOUTS_UI_ADJUSTMENT :: nat where "TIMEOUTS_UI_ADJUSTMENT = 4000"
definition TIMEOUTS_INTERVAL :: nat where "TIMEOUTS_INTERVAL = 100"
definition TIMEOUTS_MIN_DELAY :: nat where "TIMEOUTS_MIN_DELAY = 20"

definition SELECTORS_LOADING_SCREEN :: string where
  "SELECTORS_LOADING_SCREEN = ''[data-testid=\"loader-screen\"]''"
definition SELECTORS_LOGIN_BUTTON :: string where
  "SELECTORS_LOGIN_BUTTON = ''button''"
definition SELECTORS_USERNAME_INPUT :: string where
  "SELECTORS_USERNAME_INPUT = ''input[name=\"username\"]''"
definition SELECTORS_PASSWORD_INPUT :: string where
  "SELECTORS_PASSWORD_INPUT = ''input[name=\"password\"]''"
definition SELECTORS_HEADER :: string where
  "SELECTORS_HEADER = ''header''"
definition SELECTORS_NAV :: string where
  "SELECTORS_NAV = ''nav''"
definition SELECTORS_MODAL_PORTAL :: string where
  "SELECTORS_MODAL_PORTAL = ''.ReactModalPortal''"
definition SELECTORS_MODAL_CLOSE_BUTTON :: string where
  "SELECTORS_MODAL_CLOSE_BUTTON = ''svg''"
definition SELECTORS_VERSION_TEXT :: string where
  "SELECTORS_VERSION_TEXT = ''[class^=Version__Item] > span''"

definition V2_VIEWPORT_WRAPPER :: string where
  "V2_VIEWPORT_WRAPPER = ''[class^=liveview__ViewportsWrapper]''"

definition V3_LIVE_VIEW_WRAPPER :: string where
  "V3_LIVE_VIEW_WRAPPER = ''[class^=dashboard__LiveViewWrapper]''"
definition V3_WIDGETS :: string where
  "V3_WIDGETS = ''[class^=dashboard__Widgets]''"
definition V3_HEADER :: string where
  "V3_HEADER = ''[class^=liveView__Header]''"
definition V3_EXPAND_BUTTON :: string where
  "V3_EXPAND_BUTTON = ''button[class^=dashboard__ExpandButton]''"
definition V3_CONTENT :: string where
  "V3_CONTENT = ''[class^=dashboard__Content]''"
definition V3_SCROLLABLE :: string where
  "V3_SCROLLABLE = ''[class^=dashboard__Scrollable]''"
definition V3_VIEWPORT_WRAPPER :: string where
  "V3_VIEWPORT_WRAPPER = ''[class^=liveview__ViewportsWrapper]''"
definition V3_CAMERA_NAME_WRAPPER :: string where
  "V3_CAMERA_NAME_WRAPPER = ''[class^=LiveViewGridSlot__CameraNameWrapper] button''"

definition V4_V5_FULLSCREEN_WRAPPER :: string where
  "V4_V5_FULLSCREEN_WRAPPER = ''[class^=liveView__FullscreenWrapper]''"
definition V4_V5_LIVE_VIEW_WRAPPER :: string where
  "V4_V5_LIVE_VIEW_WRAPPER = ''[class^=liveView__LiveViewWrapper]''"
definition V4_V5_WIDGETS :: string where
  "V4_V5_WIDGETS = ''[class^=dashboard__Widgets]''"
definition V4_V5_EXPAND_BUTTON :: string where
  "V4_V5_EXPAND_BUTTON = ''button[class^=dashboard__ExpandButton]''"
definition V4_V5_CONTENT :: string where
  "V4_V5_CONTENT = ''[class^=dashboard__Content]''"
definition V4_V5_WIDGET :: string where
  "V4_V5_WIDGET = ''[class^=common__Widget]''"
definition V4_V5_SCROLLABLE :: string where
  "V4_V5_SCROLLABLE = ''[class^=dashboard__Scrollable]''"
definition V4_V5_VIEWPORT_WRAPPER :: string where
  "V4_V5_VIEWPORT_WRAPPER = ''[class^=liveview__ViewportsWrapper]''"
definition V4_V5_OPTION_BUTTON :: string where
  "V4_V5_OPTION_BUTTON = ''[data-testid=\"option\"]''"
definition V4_V5_PLAYER_OPTIONS :: string where
  "V4_V5_PLAYER_OPTIONS =
     ''[class^=LiveViewGridSlot__PlayerOptions] [class^=LiveViewGridSlot__StyledGoToButton]''"
definition V4_V5_ERROR_WRAPPER :: string where
  "V4_V5_ERROR_WRAPPER = ''[class^=ViewportError__Wrapper]''"

subsection \<open>\<^verbatim>\<open>waitUntil\<close>: timers and polling\<close>

text \<open>
  A call of \<^verbatim>\<open>condition()\<close> returns a truthy value, returns a falsy value, or throws. A
  condition is given by what a call made at each time would do.
\<close>

datatype outcome = Truthy | Falsy | Throws

text \<open>
  \<^verbatim>\<open>complete(result)\<close> clears both timers, so no callback of this wait runs afterwards, and
  resolves the promise \<^verbatim>\<open>MIN_DELAY\<close> later. The value is the pair of the result and the time
  at which the promise resolves.
\<close>

definition complete :: "bool \<Rightarrow> nat \<Rightarrow> bool \<times> nat" where
  "complete result now = (result, now + TIMEOUTS_MIN_DELAY)"

text \<open>
  The body of the interval callback: \<^verbatim>\<open>try { if (condition()) complete(true) } catch { log }\<close>.
  It says whether \<^verbatim>\<open>complete(true)\<close> is called; a throw is caught and logged, and the
  callback ends without completing.
\<close>

definition on_interval :: "(nat \<Rightarrow> outcome) \<Rightarrow> nat \<Rightarrow> bool" where
  "on_interval condition tick =
     (case condition tick of Truthy \<Rightarrow> True | Falsy \<Rightarrow> False | Throws \<Rightarrow> False)"

text \<open>
  The event loop of one wait. \<open>callback\<close> is the interval callback, \<open>timeoutId\<close> the time at
  which the timeout timer is due (\<open>None\<close> when it was never set), \<open>tick\<close> the time at which the
  interval timer is due next.
  The timeout timer is created before the interval timer, so when both are due at the same
  time the timeout callback runs first. A wait whose promise never resolves has the value
  \<open>None\<close>.
\<close>

partial_function (option) poll ::
  "(nat \<Rightarrow> bool) \<Rightarrow> nat option \<Rightarrow> nat \<Rightarrow> nat \<Rightarrow> (bool \<times> nat) option" where
  "poll callback timeoutId interval tick =
     (case timeoutId of
        Some due \<Rightarrow>
          if due \<le> tick then Some (complete False due)
          else if callback tick then Some (complete True tick)
          else poll callback timeoutId interval (tick + interval)
      | None \<Rightarrow>
          if callback tick then Some (complete True tick)
          else poll callback timeoutId interval (tick + interval))"

text \<open>
  \<^verbatim>\<open>waitUntil(condition, timeout, interval)\<close> called at time \<open>now\<close>. A timer with a negative
  delay is due at once (\<open>nat\<close> maps a negative delay to 0).

  The timers of the platform take their delay as a 32-bit integer, and an interval timer
  with delay 0 still ticks as time passes. This model of time is the code's for a timeout
  below \<open>2 ^ 31\<close> and an interval that is positive and below \<open>2 ^ 31\<close>, which covers every call
  in the script (timeouts 60000, 10000 and \<open>-1\<close>, intervals 100, 500 and 60000). Outside that
  range it is not: there the code's timeout is due at once where the model waits, and with
  interval 0 the model's tick does not advance. What is proved about the times at which a
  wait resolves is stated for delays in that range.
\<close>

definition waitUntil ::
  "(nat \<Rightarrow> outcome) \<Rightarrow> int \<Rightarrow> nat \<Rightarrow> nat \<Rightarrow> (bool \<times> nat) option" where
  "waitUntil condition timeout interval now =
     poll (on_interval condition) (if timeout \<noteq> - 1 then Some (now + nat timeout) else None)
       interval (now + interval)"

text \<open>The conditions of the script are boolean expressions over the page; they do not throw.\<close>

definition returns :: "bool \<Rightarrow> outcome" where
  "returns b = (if b then Truthy else Falsy)"

subsection \<open>The host page and what the script does to it\<close>

text \<open>
  Elements are identified by numbers. A \<open>page\<close> is what the script can read from the host page
  at one instant: \<^verbatim>\<open>document.URL\<close>, the result of \<^verbatim>\<open>querySelectorAll\<close> on the document and on an
  element (in document order), the number of children of an element, its \<^verbatim>\<open>innerText\<close> and
  \<^verbatim>\<open>innerHTML\<close>, whether it has a native \<^verbatim>\<open>click\<close> method, and \<^verbatim>\<open>localStorage.getItem\<close>.
\<close>

type_synonym elem = nat

record page =
  URL :: string
  querySelectorAll :: "string \<Rightarrow> elem list"
  querySelectorAll_in :: "elem \<Rightarrow> string \<Rightarrow> elem list"
  children_length :: "elem \<Rightarrow> nat"
  innerText :: "elem \<Rightarrow> string"
  innerHTML :: "elem \<Rightarrow> string"
  click_method :: "elem \<Rightarrow> bool"
  localStorage_getItem :: "string \<Rightarrow> string option"

type_synonym world = "nat \<Rightarrow> page"

text \<open>\<^verbatim>\<open>querySelector\<close> is the first match in document order, or null.\<close>

definition querySelector :: "page \<Rightarrow> string \<Rightarrow> elem option" where
  "querySelector doc sel = (case querySelectorAll doc sel of [] \<Rightarrow> None | e # _ \<Rightarrow> Some e)"

definition querySelector_in :: "page \<Rightarrow> elem \<Rightarrow> string \<Rightarrow> elem option" where
  "querySelector_in doc parent sel =
     (case querySelectorAll_in doc parent sel of [] \<Rightarrow> None | e # _ \<Rightarrow> Some e)"

text \<open>
  What the script has done: the inline styles it has set (by element and property), the
  values it has assigned, the events it has dispatched and the navigation it has asked for,
  in order, and the messages it has passed to \<^verbatim>\<open>Logger.error\<close>.
\<close>

datatype action =
    SetValue elem string
  | InputEvent elem
  | NativeClick elem
  | ClickEvent elem
  | SetStyle elem string string
  | SetHref string
  | Reload

record effects =
  styles :: "elem \<times> string \<Rightarrow> string option"
  actions :: "action list"
  errors :: "string list"

definition Logger_error :: "string \<Rightarrow> effects \<Rightarrow> effects" where
  "Logger_error message eff = eff\<lparr>errors := errors eff @ [message]\<rparr>"

definition perform :: "action \<Rightarrow> effects \<Rightarrow> effects" where
  "perform a eff = eff\<lparr>actions := actions eff @ [a]\<rparr>"

definition skip :: "effects \<Rightarrow> effects" where
  "skip eff = eff"

text \<open>A block of statements, run in the order in which they are written.\<close>

definition run_all :: "(effects \<Rightarrow> effects) list \<Rightarrow> effects \<Rightarrow> effects" where
  "run_all statements eff = fold (\<lambda>statement. statement) statements eff"

subsection \<open>Strings\<close>

fun starts_with :: "string \<Rightarrow> string \<Rightarrow> bool" where
  "starts_with s [] = True"
| "starts_with [] (c # cs) = False"
| "starts_with (x # xs) (c # cs) = (x = c \<and> starts_with xs cs)"

text \<open>\<^verbatim>\<open>String.prototype.includes\<close>.\<close>

fun str_includes :: "string \<Rightarrow> string \<Rightarrow> bool" where
  "str_includes [] sub = (sub = [])"
| "str_includes (x # xs) sub = (starts_with (x # xs) sub \<or> str_includes xs sub)"

subsection \<open>DOM helpers\<close>

text \<open>
  The three mutation helpers take a target that may be null or undefined (\<open>None\<close>). Their first
  statement is the guard \<^verbatim>\<open>if (!element) { Logger.error(...); return }\<close>. On an element,
  \<^verbatim>\<open>setNativeValue\<close> assigns the value and dispatches a simulated input event (the value
  tracker it resets is internal to the page's framework), \<^verbatim>\<open>clickElement\<close> calls the native
  \<^verbatim>\<open>click\<close> where the element has one and dispatches a synthetic click event otherwise, and
  \<^verbatim>\<open>setStyle\<close> assigns one inline style property. On an element of the page none of these
  statements throws, so the \<^verbatim>\<open>catch\<close> blocks of the helpers have no case here.
\<close>

definition setNativeValue :: "elem option \<Rightarrow> string \<Rightarrow> effects \<Rightarrow> effects" where
  "setNativeValue element v eff =
     (case element of
        None \<Rightarrow> Logger_error ''setNativeValue: Element is null'' eff
      | Some e \<Rightarrow> perform (InputEvent e) (perform (SetValue e v) eff))"

definition clickElement :: "page \<Rightarrow> elem option \<Rightarrow> effects \<Rightarrow> effects" where
  "clickElement doc element eff =
     (case element of
        None \<Rightarrow> Logger_error ''clickElement: Element is null'' eff
      | Some e \<Rightarrow>
          if click_method doc e then perform (NativeClick e) eff
          else perform (ClickEvent e) eff)"

definition setStyle :: "elem option \<Rightarrow> string \<Rightarrow> string \<Rightarrow> effects \<Rightarrow> effects" where
  "setStyle element style v eff =
     (case element of
        None \<Rightarrow>
          Logger_error (''setStyle: Element is null for style='' @ style @ '', value='' @ v) eff
      | Some e \<Rightarrow>
          perform (SetStyle e style v) (eff\<lparr>styles := (styles eff)((e, style) \<mapsto> v)\<rparr>))"

definition elementExists :: "elem list \<Rightarrow> nat \<Rightarrow> bool" where
  "elementExists elements index = (length elements > 0 \<and> index < length elements)"

definition hasElements :: "elem list \<Rightarrow> bool" where
  "hasElements elements = (length elements > 0)"

definition item :: "elem list \<Rightarrow> nat \<Rightarrow> elem option" where
  "item elements index = (if index < length elements then Some (elements ! index) else None)"

definition checkUrl :: "page \<Rightarrow> string \<Rightarrow> bool" where
  "checkUrl doc urlPart = str_includes (URL doc) urlPart"

subsection \<open>Version detection\<close>

definition getProtectVersion :: "page \<Rightarrow> string option" where
  "getProtectVersion doc =
     (let versionElements = querySelectorAll doc SELECTORS_VERSION_TEXT in
      if length versionElements = 0 then None
      else (case find (\<lambda>el. innerText doc el \<noteq> [] \<and> str_includes (innerText doc el) ''Protect'')
                   versionElements of
              Some versionEl \<Rightarrow> Some (innerHTML doc versionEl)
            | None \<Rightarrow> None))"

subsection \<open>Closing modal dialogs\<close>

text \<open>
  An asynchronous function is a function of the time at which it is called and of the state;
  it returns its result, the time at which it returns and the new state, or \<open>None\<close> when one
  of its waits never resolves. The statements between two waits run on one snapshot of the
  page; where they are more than a line they are a definition of their own, here the clicks
  that precede the wait of \<^verbatim>\<open>closeAllModals\<close>. Only waiting takes time: loading the
  configuration and the synchronous statements take none.
\<close>

definition clickModalCloseButtons :: "page \<Rightarrow> effects \<Rightarrow> effects" where
  "clickModalCloseButtons doc eff =
     (if hasElements (querySelectorAll doc SELECTORS_MODAL_PORTAL) then
        fold (\<lambda>modalPortal.
                if elementExists (querySelectorAll_in doc modalPortal SELECTORS_MODAL_CLOSE_BUTTON) 0
                then clickElement doc
                       (item (querySelectorAll_in doc modalPortal SELECTORS_MODAL_CLOSE_BUTTON) 0)
                else skip)
          (querySelectorAll doc SELECTORS_MODAL_PORTAL) eff
      else eff)"

definition allModalsClosed :: "page \<Rightarrow> bool" where
  "allModalsClosed doc =
     list_all (\<lambda>e. children_length doc e = 0) (querySelectorAll doc SELECTORS_MODAL_PORTAL)"

definition closeAllModals :: "world \<Rightarrow> nat \<Rightarrow> effects \<Rightarrow> (bool \<times> nat \<times> effects) option" where
  "closeAllModals w now eff =
     do {
       let eff1 = clickModalCloseButtons (w now) eff;
       (closed, t) \<leftarrow> waitUntil (\<lambda>t. returns (allModalsClosed (w t)))
                        TIMEOUTS_DEFAULT_WAIT TIMEOUTS_INTERVAL now;
       Some (closed, t, eff1)
     }"

subsection \<open>Login\<close>

text \<open>
  The configuration as \<^verbatim>\<open>configLoad\<close> returns it: \<open>None\<close> when nothing is stored. A field that
  is undefined, null or the empty string is falsy.
\<close>

record config =
  url :: string
  username :: "string option"
  password :: "string option"

definition falsy :: "string option \<Rightarrow> bool" where
  "falsy v = (case v of None \<Rightarrow> True | Some s \<Rightarrow> s = [])"

definition text_of :: "string option \<Rightarrow> string" where
  "text_of v = (case v of None \<Rightarrow> [] | Some s \<Rightarrow> s)"

definition handleLogin ::
  "world \<Rightarrow> config option \<Rightarrow> nat \<Rightarrow> effects \<Rightarrow> (bool \<times> nat \<times> effects) option" where
  "handleLogin w cfg now eff =
     do {
       (loginButtonPresent, t1) \<leftarrow>
         waitUntil (\<lambda>t. returns (hasElements (querySelectorAll (w t) SELECTORS_LOGIN_BUTTON)))
           TIMEOUTS_DEFAULT_WAIT TIMEOUTS_INTERVAL now;
       if \<not> loginButtonPresent then Some (False, t1, Logger_error ''Login button not found'' eff)
       else (case cfg of
          None \<Rightarrow> Some (False, t1, Logger_error ''Login credentials not found in config'' eff)
        | Some c \<Rightarrow>
            if falsy (username c) \<or> falsy (password c)
            then Some (False, t1, Logger_error ''Login credentials not found in config'' eff)
            else do {
              let eff1 = run_all
                [setNativeValue (querySelector (w t1) SELECTORS_USERNAME_INPUT) (text_of (username c)),
                 setNativeValue (querySelector (w t1) SELECTORS_PASSWORD_INPUT) (text_of (password c)),
                 clickElement (w t1) (querySelector (w t1) SELECTORS_LOGIN_BUTTON)] eff;
              (redirected, t2) \<leftarrow>
                waitUntil (\<lambda>t. returns (\<not> checkUrl (w t) ''login''))
                  TIMEOUTS_DEFAULT_WAIT TIMEOUTS_INTERVAL t1;
              Some (redirected, t2, eff1)
            })
     }"

subsection \<open>Live view of Protect 2.x\<close>

definition V2_styles :: "page \<Rightarrow> effects \<Rightarrow> effects" where
  "V2_styles doc =
     run_all
       [setStyle (querySelector doc SELECTORS_HEADER) ''display'' ''none'',
        setStyle (querySelector doc SELECTORS_NAV) ''display'' ''none'',
        setStyle (querySelector doc V2_VIEWPORT_WRAPPER) ''maxWidth'' ''100vw'',
        setStyle (querySelector doc V2_VIEWPORT_WRAPPER) ''maxHeight'' ''100vh'']"

definition handleLiveviewV2 :: "world \<Rightarrow> nat \<Rightarrow> effects \<Rightarrow> (bool \<times> nat \<times> effects) option" where
  "handleLiveviewV2 w now eff =
     do {
       (liveviewPresent, t1) \<leftarrow>
         waitUntil (\<lambda>t. returns (hasElements (querySelectorAll (w t) V2_VIEWPORT_WRAPPER)))
           TIMEOUTS_DEFAULT_WAIT TIMEOUTS_INTERVAL now;
       if \<not> liveviewPresent
       then Some (False, t1, Logger_error ''Liveview not found for Protect 2.x'' eff)
       else do {
         (closed, t2, eff2) \<leftarrow> closeAllModals w t1 eff;
         Some (True, t2, V2_styles (w t2) eff2)
       }
     }"

subsection \<open>Live view of Protect 3.x\<close>

definition V3_base_styles :: "page \<Rightarrow> effects \<Rightarrow> effects" where
  "V3_base_styles doc =
     run_all
       [setStyle (querySelector doc ''body'') ''background'' ''black'',
        setStyle (querySelector doc SELECTORS_HEADER) ''display'' ''none'',
        setStyle (querySelector doc SELECTORS_NAV) ''display'' ''none'']"

text \<open>
  The statements between the second and the third wait. \<^verbatim>\<open>document.querySelector(...)\<close> of the
  live-view wrapper is dereferenced without a null check: on null the \<^verbatim>\<open>TypeError\<close> leaves the
  block (first component \<open>False\<close>) and the handler's \<^verbatim>\<open>catch\<close> returns false.
\<close>

definition V3_dashboard_styles :: "page \<Rightarrow> effects \<Rightarrow> bool \<times> effects" where
  "V3_dashboard_styles doc eff =
     (let eff1 = run_all
            [setStyle (querySelector doc V3_WIDGETS) ''display'' ''none'',
             setStyle (querySelector doc V3_HEADER) ''display'' ''none'',
             setStyle (querySelector doc V3_EXPAND_BUTTON) ''display'' ''none'',
             setStyle (querySelector doc V3_CONTENT) ''display'' ''block'',
             setStyle (querySelector doc V3_CONTENT) ''padding'' ''0''] eff
      in case querySelector doc V3_LIVE_VIEW_WRAPPER of
           None \<Rightarrow> (False, eff1)
         | Some liveViewWrapper \<Rightarrow>
             (True, run_all
                [let scrollable = querySelector_in doc liveViewWrapper V3_SCROLLABLE
                 in if scrollable \<noteq> None then setStyle scrollable ''paddingBottom'' ''0'' else skip,
                 let viewportWrapper = querySelector_in doc liveViewWrapper V3_VIEWPORT_WRAPPER
                 in if viewportWrapper \<noteq> None
                    then setStyle viewportWrapper ''maxWidth'' ''calc(177.778vh - 50px)''
                    else skip] eff1))"

definition V3_camera_names :: "page \<Rightarrow> effects \<Rightarrow> effects" where
  "V3_camera_names doc =
     fold (\<lambda>button. run_all
             [setStyle (Some button) ''color'' ''white'',
              setStyle (Some button) ''cursor'' ''initial'',
              setStyle (Some button) ''pointerEvents'' ''none''])
       (querySelectorAll doc V3_CAMERA_NAME_WRAPPER)"

definition handleLiveviewV3 :: "world \<Rightarrow> nat \<Rightarrow> effects \<Rightarrow> (bool \<times> nat \<times> effects) option" where
  "handleLiveviewV3 w now eff =
     do {
       (liveviewPresent, t1) \<leftarrow>
         waitUntil (\<lambda>t. returns (hasElements (querySelectorAll (w t) V3_LIVE_VIEW_WRAPPER)))
           TIMEOUTS_DEFAULT_WAIT TIMEOUTS_INTERVAL now;
       if \<not> liveviewPresent
       then Some (False, t1, Logger_error ''Liveview not found for Protect 3.x'' eff)
       else do {
         (closed, t2, eff2) \<leftarrow> closeAllModals w t1 eff;
         let eff3 = V3_base_styles (w t2) eff2;
         (widgetsPresent, t3) \<leftarrow>
           waitUntil (\<lambda>t. returns (hasElements (querySelectorAll (w t) V3_WIDGETS) \<and>
                                   hasElements (querySelectorAll (w t) V3_HEADER) \<and>
                                   hasElements (querySelectorAll (w t) V3_EXPAND_BUTTON)))
             TIMEOUTS_DEFAULT_WAIT TIMEOUTS_INTERVAL t2;
         if \<not> widgetsPresent
         then Some (False, t3, Logger_error ''Widgets not found for Protect 3.x'' eff3)
         else (case V3_dashboard_styles (w t3) eff3 of
            (False, eff4) \<Rightarrow> Some (False, t3, Logger_error ''Error in handleLiveviewV3:'' eff4)
          | (True, eff4) \<Rightarrow>
              do {
                (cameraNamesPresent, t4) \<leftarrow>
                  waitUntil (\<lambda>t. returns (hasElements
                                 (querySelectorAll (w t) V3_CAMERA_NAME_WRAPPER)))
                    TIMEOUTS_DEFAULT_WAIT TIMEOUTS_INTERVAL t3;
                Some (True, t4,
                      (if cameraNamesPresent then V3_camera_names (w t4) else skip) eff4)
              })
       }
     }"

subsection \<open>Live view of Protect 4.x and 5.x\<close>

definition V4_V5_styles :: "page \<Rightarrow> effects \<Rightarrow> effects" where
  "V4_V5_styles doc =
     run_all
       [setStyle (querySelector doc ''body'') ''background'' ''black'',
        setStyle (querySelector doc SELECTORS_HEADER) ''display'' ''none'',
        setStyle (querySelector doc SELECTORS_NAV) ''display'' ''none'',
        if hasElements (querySelectorAll doc V4_V5_WIDGETS)
        then setStyle (querySelector doc V4_V5_WIDGETS) ''display'' ''none'' else skip,
        if hasElements (querySelectorAll doc V4_V5_EXPAND_BUTTON)
        then setStyle (querySelector doc V4_V5_EXPAND_BUTTON) ''display'' ''none'' else skip,
        if hasElements (querySelectorAll doc V4_V5_CONTENT)
        then run_all
               [setStyle (querySelector doc V4_V5_CONTENT) ''display'' ''block'',
                setStyle (querySelector doc V4_V5_CONTENT) ''padding'' ''0'']
        else skip,
        setStyle (querySelector doc V4_V5_FULLSCREEN_WRAPPER) ''background-color'' ''black'',
        case querySelector doc V4_V5_LIVE_VIEW_WRAPPER of
          None \<Rightarrow> skip
        | Some liveViewWrapper \<Rightarrow>
            run_all
              [let widget = querySelector_in doc liveViewWrapper V4_V5_WIDGET
               in if widget \<noteq> None then setStyle widget ''border'' ''0'' else skip,
               let scrollable = querySelector_in doc liveViewWrapper V4_V5_SCROLLABLE
               in if scrollable \<noteq> None then setStyle scrollable ''paddingBottom'' ''0'' else skip,
               let viewportWrapper = querySelector_in doc liveViewWrapper V4_V5_VIEWPORT_WRAPPER
               in if viewportWrapper \<noteq> None
                  then setStyle viewportWrapper ''maxWidth'' ''calc((100vh) * 1.7777777777777777)''
                  else skip]]"

definition forEach_setStyle :: "page \<Rightarrow> string \<Rightarrow> string \<Rightarrow> string \<Rightarrow> effects \<Rightarrow> effects" where
  "forEach_setStyle doc sel style v =
     fold (\<lambda>element. setStyle (Some element) style v) (querySelectorAll doc sel)"

definition handleLiveviewV4andV5 ::
  "world \<Rightarrow> nat \<Rightarrow> effects \<Rightarrow> (bool \<times> nat \<times> effects) option" where
  "handleLiveviewV4andV5 w now eff =
     do {
       (liveviewPresent, t1) \<leftarrow>
         waitUntil (\<lambda>t. returns (hasElements (querySelectorAll (w t) V4_V5_FULLSCREEN_WRAPPER)))
           TIMEOUTS_DEFAULT_WAIT TIMEOUTS_INTERVAL now;
       if \<not> liveviewPresent
       then Some (False, t1, Logger_error ''Liveview not found for Protect 4.x/5.x'' eff)
       else do {
         (closed, t2, eff2) \<leftarrow> closeAllModals w t1 eff;
         let eff3 = V4_V5_styles (w t2) eff2;
         (optionsVisible, t3) \<leftarrow>
           waitUntil (\<lambda>t. returns (hasElements (querySelectorAll (w t) V4_V5_OPTION_BUTTON)))
             TIMEOUTS_DEFAULT_WAIT 500 t2;
         let eff4 = (if optionsVisible
                     then forEach_setStyle (w t3) V4_V5_OPTION_BUTTON ''display'' ''none''
                     else skip) eff3;
         (playerOptionsVisible, t4) \<leftarrow>
           waitUntil (\<lambda>t. returns (hasElements (querySelectorAll (w t) V4_V5_PLAYER_OPTIONS)))
             TIMEOUTS_DEFAULT_WAIT 500 t3;
         let eff5 = (if playerOptionsVisible
                     then forEach_setStyle (w t4) V4_V5_PLAYER_OPTIONS ''display'' ''none''
                     else skip) eff4;
         Some (True, t4,
               forEach_setStyle (w t4) V4_V5_ERROR_WRAPPER ''background-color'' ''black'' eff5)
       }
     }"

subsection \<open>The orchestrator\<close>

text \<open>
  The chain \<^verbatim>\<open>if (version.includes('3.')) ... else if (version.includes('4.') ||
  version.includes('5.')) ... else ...\<close> of \<^verbatim>\<open>run\<close>, as the driver it selects.
\<close>

datatype generation = Gen3 | Gen45 | Unsupported

definition classify :: "string \<Rightarrow> generation" where
  "classify version =
     (if str_includes version ''3.'' then Gen3
      else if str_includes version ''4.'' \<or> str_includes version ''5.'' then Gen45
      else Unsupported)"

text \<open>\<^verbatim>\<open>getProtectVersion() || 'Protect 3.x'\<close>: null and the empty string are falsy.\<close>

definition detectedVersion :: "page \<Rightarrow> string" where
  "detectedVersion doc =
     (case getProtectVersion doc of
        None \<Rightarrow> ''Protect 3.x''
      | Some v \<Rightarrow> if v = [] then ''Protect 3.x'' else v)"

text \<open>
  The dispatch of \<^verbatim>\<open>run\<close> on the dashboard route: the selected driver is applied, and
  applied again \<^verbatim>\<open>UI_ADJUSTMENT\<close> after it has returned.
\<close>

definition twice ::
  "(nat \<Rightarrow> effects \<Rightarrow> (bool \<times> nat \<times> effects) option) \<Rightarrow> nat \<Rightarrow> effects \<Rightarrow> (nat \<times> effects) option" where
  "twice driver now eff =
     do {
       (r1, t1, eff1) \<leftarrow> driver now eff;
       (r2, t2, eff2) \<leftarrow> driver (t1 + TIMEOUTS_UI_ADJUSTMENT) eff1;
       Some (t2, eff2)
     }"

definition applyLayout :: "world \<Rightarrow> string \<Rightarrow> nat \<Rightarrow> effects \<Rightarrow> (nat \<times> effects) option" where
  "applyLayout w version now eff =
     (if checkUrl (w now) ''protect/dashboard'' then
        (case classify version of
           Gen3 \<Rightarrow> twice (handleLiveviewV3 w) now eff
         | Gen45 \<Rightarrow> twice (handleLiveviewV4andV5 w) now eff
         | Unsupported \<Rightarrow> Some (now, Logger_error (''Unsupported version: '' @ version) eff))
      else Some (now, eff))"

text \<open>
  The session watchdog, the last block of \<^verbatim>\<open>run\<close>. The stored marker is a string; \<open>toNumber\<close>
  is JavaScript's unary plus on it, \<open>None\<close> standing for \<^verbatim>\<open>NaN\<close>, with which every comparison
  is false. The marker is a time in milliseconds, so the numbers are integers.
\<close>

definition past_trigger :: "nat \<Rightarrow> int option \<Rightarrow> bool" where
  "past_trigger t trigger = (case trigger of None \<Rightarrow> False | Some g \<Rightarrow> int t > g)"

definition sessionWatchdog ::
  "world \<Rightarrow> (string \<Rightarrow> int option) \<Rightarrow> config \<Rightarrow> nat \<Rightarrow> effects \<Rightarrow> (nat \<times> effects) option" where
  "sessionWatchdog w toNumber c now eff =
     (if falsy (localStorage_getItem (w now) ''portal:localSessionsExpiresAt'') then Some (now, eff)
      else
        let loginExpiresAt =
              toNumber (text_of (localStorage_getItem (w now) ''portal:localSessionsExpiresAt''));
            offset = 10 * 60 * 1000
        in do {
          (fired, t) \<leftarrow>
            waitUntil (\<lambda>t. returns (\<not> checkUrl (w t) (url c) \<or>
                           past_trigger t (map_option (\<lambda>e. e - offset) loginExpiresAt)))
              (- 1) 60000 now;
          Some (t, perform Reload eff)
        })"

definition run ::
  "world \<Rightarrow> (string \<Rightarrow> int option) \<Rightarrow> config option \<Rightarrow> nat \<Rightarrow> effects \<Rightarrow> (nat \<times> effects) option" where
  "run w toNumber cfg now eff =
     (case cfg of
        None \<Rightarrow> Some (now, Logger_error ''No configuration found'' eff)
      | Some c \<Rightarrow>
          if checkUrl (w now) ''index.html'' \<or> checkUrl (w now) ''config.html'' then Some (now, eff)
          else if \<not> checkUrl (w now) (url c) then Some (now, perform (SetHref (url c)) eff)
          else do {
            (loadingScreenVisible, t1) \<leftarrow>
              waitUntil (\<lambda>t. returns (hasElements
                            (querySelectorAll (w t) SELECTORS_LOADING_SCREEN)))
                TIMEOUTS_LOADING_TIMEOUT TIMEOUTS_INTERVAL now;
            (gone, t2) \<leftarrow>
              (if loadingScreenVisible
               then waitUntil (\<lambda>t. returns (\<not> hasElements
                                 (querySelectorAll (w t) SELECTORS_LOADING_SCREEN)))
                      TIMEOUTS_DEFAULT_WAIT TIMEOUTS_INTERVAL t1
               else Some (True, t1));
            (loggedIn, t3, eff3) \<leftarrow>
              (if checkUrl (w t2) ''login'' then
                 do {
                   (loginSuccess, t, e) \<leftarrow> handleLogin w cfg t2 eff;
                   if loginSuccess then
                     do {
                       (redirected, t') \<leftarrow>
                         waitUntil (\<lambda>t. returns (\<not> checkUrl (w t) ''login''))
                           TIMEOUTS_DEFAULT_WAIT TIMEOUTS_INTERVAL t;
                       Some (True, t', e)
                     }
                   else Some (False, t, Logger_error ''Login failed'' e)
                 }
               else Some (True, t2, eff));
            if \<not> loggedIn then Some (t3, eff3)
            else if checkUrl (w t3) ''protect/liveview'' then
              do {
                (r, t4, eff4) \<leftarrow> handleLiveviewV2 w t3 eff3;
                Some (t4, eff4)
              }
            else
              do {
                (versionVisible, t4) \<leftarrow>
                  waitUntil (\<lambda>t. returns (hasElements
                                (querySelectorAll (w t) SELECTORS_VERSION_TEXT)))
                    TIMEOUTS_LOADING_TIMEOUT TIMEOUTS_INTERVAL t3;
                (t5, eff5) \<leftarrow> applyLayout w (detectedVersion (w t4)) t4 eff3;
                sessionWatchdog w toNumber c t5 eff5
              }
          })"

subsection \<open>Auxiliary notions for the proofs\<close>

text \<open>
  What a resolved wait tells about the ticks that ran: it resolved true at the first tick
  that found the condition truthy, before the timeout was due; or it resolved false at the
  timeout, and no tick before it found the condition truthy.
\<close>

definition shape :: "(nat \<Rightarrow> bool) \<Rightarrow> nat option \<Rightarrow> nat \<Rightarrow> nat \<Rightarrow> bool \<times> nat \<Rightarrow> bool" where
  "shape c tid I tick y \<longleftrightarrow>
     (fst y \<and> (\<exists>k. snd y = tick + k * I + TIMEOUTS_MIN_DELAY \<and> c (tick + k * I)
             \<and> (\<forall>j<k. \<not> c (tick + j * I))
             \<and> (\<forall>due. tid = Some due \<longrightarrow> tick + k * I < due)))
       \<or> (\<not> fst y \<and> (\<exists>due. tid = Some due \<and> snd y = due + TIMEOUTS_MIN_DELAY
             \<and> (\<forall>j. tick + j * I < due \<longrightarrow> \<not> c (tick + j * I))))"

text \<open>
  The trigger point of the session watchdog, ten minutes before the expiry, and the condition
  the watchdog polls: the URL no longer contains the configured URL, or the clock is past the
  trigger point.
\<close>

definition trigger_point :: "int option \<Rightarrow> int option" where
  "trigger_point expiry = map_option (\<lambda>e. e - 10 * 60 * 1000) expiry"

definition watchdog_fires :: "world \<Rightarrow> config \<Rightarrow> int option \<Rightarrow> nat \<Rightarrow> bool" where
  "watchdog_fires w c expiry t \<longleftrightarrow>
     \<not> str_includes (URL (w t)) (url c) \<or> past_trigger t (trigger_point expiry)"

text \<open>A page that stays as it is: the world that shows the same page at every time.\<close>

definition frozen :: "page \<Rightarrow> world" where
  "frozen doc t = doc"

text \<open>
  An operation is uniform on styles when, for every style key, it either leaves the key as
  it found it, whatever the state, or gives it a value that does not depend on the state it
  started from.
\<close>

definition style_uniform :: "(effects \<Rightarrow> effects) \<Rightarrow> bool" where
  "style_uniform f \<longleftrightarrow>
     (\<forall>e e' k. (styles (f e) k = styles e k \<and> styles (f e') k = styles e' k)
               \<or> styles (f e) k = styles (f e') k)"

text \<open>
  What the driver for 2.x is to do, in the words of the amended claim C4: the click on the
  close control of every modal portal that has one, and four style requests, on the header,
  the navigation and (twice) the viewport wrapper. A request on a null target sets nothing.
\<close>

type_synonym request = "elem option \<times> string \<times> string"

definition modal_click :: "page \<Rightarrow> elem \<Rightarrow> action list" where
  "modal_click doc modalPortal =
     (case querySelectorAll_in doc modalPortal SELECTORS_MODAL_CLOSE_BUTTON of
        [] \<Rightarrow> []
      | b # _ \<Rightarrow> [if click_method doc b then NativeClick b else ClickEvent b])"

definition modal_clicks :: "page \<Rightarrow> action list" where
  "modal_clicks doc = concat (map (modal_click doc) (querySelectorAll doc SELECTORS_MODAL_PORTAL))"

definition V2_requests :: "page \<Rightarrow> request list" where
  "V2_requests doc =
     [(querySelector doc SELECTORS_HEADER, ''display'', ''none''),
      (querySelector doc SELECTORS_NAV, ''display'', ''none''),
      (querySelector doc V2_VIEWPORT_WRAPPER, ''maxWidth'', ''100vw''),
      (querySelector doc V2_VIEWPORT_WRAPPER, ''maxHeight'', ''100vh'')]"

fun requested_actions :: "request list \<Rightarrow> action list" where
  "requested_actions [] = []"
| "requested_actions ((None, style, v) # rs) = requested_actions rs"
| "requested_actions ((Some e, style, v) # rs) = SetStyle e style v # requested_actions rs"

fun requested_styles ::
  "request list \<Rightarrow> (elem \<times> string \<Rightarrow> string option) \<Rightarrow> (elem \<times> string \<Rightarrow> string option)" where
  "requested_styles [] m = m"
| "requested_styles ((None, style, v) # rs) m = requested_styles rs m"
| "requested_styles ((Some e, style, v) # rs) m = requested_styles rs (m((e, style) \<mapsto> v))"

subsection \<open>Example inputs\<close>

text \<open>Conditions used to run the definitions on concrete inputs.\<close>

definition always :: "outcome \<Rightarrow> nat \<Rightarrow> outcome" where
  "always r t = r"

definition truthy_from :: "nat \<Rightarrow> nat \<Rightarrow> outcome" where
  "truthy_from u t = returns (u \<le> t)"

definition truthy_between :: "nat \<Rightarrow> nat \<Rightarrow> nat \<Rightarrow> outcome" where
  "truthy_between u v t = returns (u \<le> t \<and> t \<le> v)"


text \<open>
  A page that shows the given version labels, on the dashboard route; and the effects
  record of a script that has done nothing yet.
\<close>

definition version_page :: "string list \<Rightarrow> page" where
  "version_page labels =
     \<lparr>URL = ''https://h/protect/dashboard/X'',
      querySelectorAll = (\<lambda>sel. if sel = SELECTORS_VERSION_TEXT then [0..<length labels] else []),
      querySelectorAll_in = (\<lambda>e sel. []),
      children_length = (\<lambda>e. 0),
      innerText = (\<lambda>e. if e < length labels then labels ! e else []),
      innerHTML = (\<lambda>e. if e < length labels then labels ! e else []),
      click_method = (\<lambda>e. True),
      localStorage_getItem = (\<lambda>k. None)\<rparr>"

definition no_effects :: effects where
  "no_effects = \<lparr>styles = (\<lambda>k. None), actions = [], errors = []\<rparr>"

text \<open>
  A login page that turns into the dashboard 700 ms after the start, a stored configuration,
  a page with a session marker in its storage, and a reader of decimal numerals standing for
  the conversion of the marker to a number.
\<close>

definition login_page :: page where
  "login_page =
     \<lparr>URL = ''https://h/login'',
      querySelectorAll = (\<lambda>sel. if sel = SELECTORS_LOGIN_BUTTON then [1]
                               else if sel = SELECTORS_USERNAME_INPUT then [2]
                               else if sel = SELECTORS_PASSWORD_INPUT then [3] else []),
      querySelectorAll_in = (\<lambda>e sel. []),
      children_length = (\<lambda>e. 0),
      innerText = (\<lambda>e. []),
      innerHTML = (\<lambda>e. []),
      click_method = (\<lambda>e. True),
      localStorage_getItem = (\<lambda>k. None)\<rparr>"

definition login_world :: world where
  "login_world t = (if t < 700 then login_page else version_page [''Protect 4.1.0''])"

definition example_config :: config where
  "example_config = \<lparr>url = ''https://h/protect/dashboard/X'', username = Some ''u'', password = Some ''p''\<rparr>"

definition session_page :: "string option \<Rightarrow> page" where
  "session_page marker =
     (version_page [])\<lparr>localStorage_getItem :=
        (\<lambda>k. if k = ''portal:localSessionsExpiresAt'' then marker else None)\<rparr>"

definition session_world :: "string option \<Rightarrow> world" where
  "session_world marker t = session_page marker"

definition decimal :: "string \<Rightarrow> int option" where
  "decimal s =
     (if s \<noteq> [] \<and> list_all (\<lambda>c. c \<in> set ''0123456789'') s
      then Some (foldl (\<lambda>n c. 10 * n + (of_char c - 48)) 0 s) else None)"

text \<open>
  A page with the elements the three drivers look for, and one open modal dialog whose close
  control is an \<^verbatim>\<open>svg\<close> element (so without a native \<^verbatim>\<open>click\<close>).
\<close>

definition example_page :: page where
  "example_page =
     \<lparr>URL = ''https://h/protect/dashboard/X'',
      querySelectorAll = (\<lambda>sel.
         if sel = ''body'' then [0]
         else if sel = V2_VIEWPORT_WRAPPER then [1]
         else if sel = SELECTORS_HEADER then [2]
         else if sel = SELECTORS_NAV then [3]
         else if sel = SELECTORS_MODAL_PORTAL then [5]
         else if sel = V3_LIVE_VIEW_WRAPPER then [10]
         else if sel = V3_WIDGETS then [11]
         else if sel = V3_HEADER then [12]
         else if sel = V3_EXPAND_BUTTON then [13]
         else if sel = V3_CONTENT then [14]
         else if sel = V3_CAMERA_NAME_WRAPPER then [20, 21]
         else if sel = V4_V5_FULLSCREEN_WRAPPER then [30]
         else if sel = V4_V5_LIVE_VIEW_WRAPPER then [31]
         else if sel = V4_V5_OPTION_BUTTON then [40, 41]
         else if sel = V4_V5_ERROR_WRAPPER then [50]
         else []),
      querySelectorAll_in = (\<lambda>e sel.
         if e = 5 \<and> sel = SELECTORS_MODAL_CLOSE_BUTTON then [6]
         else if e = 10 \<and> sel = V3_SCROLLABLE then [15]
         else if e = 10 \<and> sel = V3_VIEWPORT_WRAPPER then [16]
         else if e = 31 \<and> sel = V4_V5_WIDGET then [32]
         else if e = 31 \<and> sel = V4_V5_SCROLLABLE then [33]
         else if e = 31 \<and> sel = V4_V5_VIEWPORT_WRAPPER then [34]
         else []),
      children_length = (\<lambda>e. if e = 5 then 1 else 0),
      innerText = (\<lambda>e. []),
      innerHTML = (\<lambda>e. []),
      click_method = (\<lambda>e. e \<noteq> 6),
      localStorage_getItem = (\<lambda>k. None)\<rparr>"

section \<open>Properties of the polling primitive\<close>

lemma on_interval_iff: "on_interval c t \<longleftrightarrow> c t = Truthy"
  by (simp add: on_interval_def split: outcome.splits)

lemma poll_true:
  assumes "\<And>j. j < k \<Longrightarrow> \<not> c (tick + j * I)"
    and "c (tick + k * I)"
    and "\<And>due. tid = Some due \<Longrightarrow> tick + k * I < due"
  shows "poll c tid I tick = Some (complete True (tick + k * I))"
  using assms
proof (induction k arbitrary: tick)
  case 0
  then show ?case
    by (subst poll.simps) (auto split: option.splits)
next
  case (Suc k)
  have no: "\<not> c tick"
    using Suc.prems(1)[of 0] by simp
  have later: "poll c tid I (tick + I) = Some (complete True (tick + I + k * I))"
  proof (rule Suc.IH)
    fix j assume "j < k"
    then show "\<not> c (tick + I + j * I)"
      using Suc.prems(1)[of "Suc j"] by (simp add: add.assoc)
  next
    show "c (tick + I + k * I)"
      using Suc.prems(2) by (simp add: add.assoc)
  next
    fix due assume "tid = Some due"
    then show "tick + I + k * I < due"
      using Suc.prems(3) by (simp add: add.assoc)
  qed
  have notyet: "\<And>due. tid = Some due \<Longrightarrow> \<not> due \<le> tick"
    using Suc.prems(3) by fastforce
  show ?case
    by (subst poll.simps) (use no later notyet in \<open>auto split: option.splits simp: add.assoc\<close>)
qed

lemma poll_false:
  assumes "0 < I"
    and "\<And>j. tick + j * I < due \<Longrightarrow> \<not> c (tick + j * I)"
  shows "poll c (Some due) I tick = Some (complete False due)"
  using assms
proof (induction "due - tick" arbitrary: tick rule: less_induct)
  case less
  show ?case
  proof (cases "due \<le> tick")
    case True
    then show ?thesis by (subst poll.simps) simp
  next
    case False
    have no: "\<not> c tick"
      using less.prems(2)[of 0] False by simp
    have "poll c (Some due) I (tick + I) = Some (complete False due)"
    proof (rule less.hyps)
      show "due - (tick + I) < due - tick" using False \<open>0 < I\<close> by arith
      show "0 < I" by fact
      fix j assume "tick + I + j * I < due"
      then show "\<not> c (tick + I + j * I)"
        using less.prems(2)[of "Suc j"] by (simp add: add.assoc)
    qed
    then show ?thesis
      by (subst poll.simps) (use no False in simp)
  qed
qed

lemma shape_now_true:
  "c tick \<Longrightarrow> (\<And>due. tid = Some due \<Longrightarrow> tick < due) \<Longrightarrow> shape c tid I tick (complete True tick)"
  unfolding shape_def complete_def
  by (auto intro!: exI[of _ 0])

lemma shape_now_false:
  "due \<le> tick \<Longrightarrow> shape c (Some due) I tick (complete False due)"
  unfolding shape_def complete_def by auto

lemma shape_later:
  assumes "shape c tid I (tick + I) y" and "\<not> c tick"
    and "\<And>due. tid = Some due \<Longrightarrow> tick < due"
  shows "shape c tid I tick y"
proof (cases "fst y")
  case True
  with assms(1) obtain k where k: "snd y = tick + I + k * I + TIMEOUTS_MIN_DELAY"
      "c (tick + I + k * I)" "\<forall>j<k. \<not> c (tick + I + j * I)"
      "\<forall>due. tid = Some due \<longrightarrow> tick + I + k * I < due"
    unfolding shape_def by auto
  have "\<not> c (tick + j * I)" if "j < Suc k" for j
  proof (cases j)
    case 0
    then show ?thesis using assms(2) by simp
  next
    case (Suc j')
    then show ?thesis using k(3) that by (simp add: add.assoc)
  qed
  then show ?thesis
    unfolding shape_def using True k
    by (intro disjI1 conjI exI[of _ "Suc k"]) (auto simp: add.assoc)
next
  case False
  with assms(1) obtain due where d: "tid = Some due" "snd y = due + TIMEOUTS_MIN_DELAY"
      "\<forall>j. tick + I + j * I < due \<longrightarrow> \<not> c (tick + I + j * I)"
    unfolding shape_def by auto
  have "\<not> c (tick + j * I)" if "tick + j * I < due" for j
  proof (cases j)
    case 0
    then show ?thesis using assms(2) by simp
  next
    case (Suc j')
    then show ?thesis using d(3) that by (simp add: add.assoc)
  qed
  then show ?thesis
    unfolding shape_def using False d by auto
qed

lemma poll_shape:
  assumes "poll c tid I tick = Some y"
  shows "shape c tid I tick y"
proof (rule poll.raw_induct[where P = shape, OF _ assms])
  fix p :: "(nat \<Rightarrow> bool) \<Rightarrow> nat option \<Rightarrow> nat \<Rightarrow> nat \<Rightarrow> (bool \<times> nat) option"
    and c tid I tick y
  assume IH: "\<And>c tid I tick y. p c tid I tick = Some y \<Longrightarrow> shape c tid I tick y"
    and step: "(case tid of
        None \<Rightarrow> if c tick then Some (complete True tick)
                else p c tid I (tick + I)
      | Some due \<Rightarrow> if due \<le> tick then Some (complete False due)
                else if c tick then Some (complete True tick)
                else p c tid I (tick + I)) = Some y"
  show "shape c tid I tick y"
  proof (cases tid)
    case None
    show ?thesis
    proof (cases "c tick")
      case True
      with step None have "y = complete True tick" by simp
      then show ?thesis using True None shape_now_true[of c tick tid I] by simp
    next
      case False
      with step None have "p c tid I (tick + I) = Some y" by simp
      then show ?thesis using IH False None shape_later[of c tid I tick y] by simp
    qed
  next
    case (Some due)
    show ?thesis
    proof (cases "due \<le> tick")
      case True
      with step Some have "y = complete False due" by simp
      then show ?thesis using True Some shape_now_false by simp
    next
      case late: False
      show ?thesis
      proof (cases "c tick")
        case True
        with step Some late have "y = complete True tick" by simp
        then show ?thesis using True Some late shape_now_true[of c tick tid I] by simp
      next
        case False
        with step Some late have "p c tid I (tick + I) = Some y" by simp
        then show ?thesis using IH False Some late shape_later[of c tid I tick y] by simp
      qed
    qed
  qed
qed

lemma poll_none:
  assumes "\<And>j. \<not> c (tick + j * I)"
  shows "poll c None I tick = None"
proof (cases "poll c None I tick")
  case None
  then show ?thesis .
next
  case (Some y)
  from poll_shape[OF Some] assms show ?thesis
    unfolding shape_def by auto
qed

subsection \<open>Consequences for waitUntil\<close>

lemma waitUntil_true:
  assumes "1 \<le> k" and "c (now + k * I) = Truthy"
    and "\<And>j. 1 \<le> j \<Longrightarrow> j < k \<Longrightarrow> c (now + j * I) \<noteq> Truthy"
    and "T = - 1 \<or> int (k * I) < T"
  shows "waitUntil c T I now = Some (True, now + k * I + TIMEOUTS_MIN_DELAY)"
proof -
  obtain k' where k': "k = Suc k'" by (cases k) (use assms(1) in auto)
  have "poll (on_interval c) (if T \<noteq> - 1 then Some (now + nat T) else None) I (now + I)
        = Some (complete True (now + I + k' * I))"
  proof (rule poll_true)
    fix j assume "j < k'"
    then show "\<not> on_interval c (now + I + j * I)"
      using assms(3)[of "Suc j"] k' by (simp add: on_interval_iff add.assoc)
  next
    show "on_interval c (now + I + k' * I)"
      using assms(2) k' by (simp add: on_interval_iff add.assoc)
  next
    fix due assume "(if T \<noteq> - 1 then Some (now + nat T) else None) = Some due"
    then have "T \<noteq> - 1" "due = now + nat T" by (auto split: if_splits)
    with assms(4) k' show "now + I + k' * I < due" by (auto simp: zless_nat_eq_int_zless)
  qed
  then show ?thesis
    by (simp add: waitUntil_def complete_def k' add.assoc)
qed

lemma waitUntil_false:
  assumes "T \<noteq> - 1" and "0 < I"
    and "\<And>j. 1 \<le> j \<Longrightarrow> j * I < nat T \<Longrightarrow> c (now + j * I) \<noteq> Truthy"
  shows "waitUntil c T I now = Some (False, now + nat T + TIMEOUTS_MIN_DELAY)"
proof -
  have "poll (on_interval c) (Some (now + nat T)) I (now + I) = Some (complete False (now + nat T))"
  proof (rule poll_false[OF assms(2)])
    fix j assume "now + I + j * I < now + nat T"
    then show "\<not> on_interval c (now + I + j * I)"
      using assms(3)[of "Suc j"] by (simp add: on_interval_iff add.assoc)
  qed
  then show ?thesis
    using assms(1) by (simp add: waitUntil_def complete_def)
qed

lemma waitUntil_never:
  assumes "\<And>j. 1 \<le> j \<Longrightarrow> c (now + j * I) \<noteq> Truthy"
  shows "waitUntil c (- 1) I now = None"
proof -
  have "poll (on_interval c) None I (now + I) = None"
  proof (rule poll_none)
    fix j show "\<not> on_interval c (now + I + j * I)"
      using assms[of "Suc j"] by (simp add: on_interval_iff add.assoc)
  qed
  then show ?thesis by (simp add: waitUntil_def)
qed

lemma waitUntil_resolved_true:
  assumes "waitUntil c T I now = Some (True, t)"
  shows "\<exists>k\<ge>1. t = now + k * I + TIMEOUTS_MIN_DELAY \<and> c (now + k * I) = Truthy
           \<and> (\<forall>j. 1 \<le> j \<and> j < k \<longrightarrow> c (now + j * I) \<noteq> Truthy)
           \<and> (T \<noteq> - 1 \<longrightarrow> k * I < nat T)"
proof -
  let ?tid = "if T \<noteq> - 1 then Some (now + nat T) else None"
  from assms have "shape (on_interval c) ?tid I (now + I) (True, t)"
    unfolding waitUntil_def by (rule poll_shape)
  then obtain k where k: "t = now + I + k * I + TIMEOUTS_MIN_DELAY" "on_interval c (now + I + k * I)"
      "\<forall>j<k. \<not> on_interval c (now + I + j * I)" "\<forall>due. ?tid = Some due \<longrightarrow> now + I + k * I < due"
    unfolding shape_def by auto
  have early: "c (now + j * I) \<noteq> Truthy" if j1: "1 \<le> j" and j2: "j < Suc k" for j
  proof -
    obtain j' where "j = Suc j'" by (cases j) (use j1 in auto)
    then show ?thesis using k(3) j2 by (auto simp: on_interval_iff add.assoc)
  qed
  show ?thesis
  proof (intro exI[of _ "Suc k"] conjI allI impI)
    show "1 \<le> Suc k" by simp
    show "t = now + Suc k * I + TIMEOUTS_MIN_DELAY" using k(1) by (simp add: add.assoc)
    show "c (now + Suc k * I) = Truthy" using k(2) by (simp add: on_interval_iff add.assoc)
    show "c (now + j * I) \<noteq> Truthy" if "1 \<le> j \<and> j < Suc k" for j using early that by blast
    show "Suc k * I < nat T" if "T \<noteq> - 1" using k(4) that by (auto simp: add.assoc)
  qed
qed

lemma waitUntil_resolved_false:
  assumes "waitUntil c T I now = Some (False, t)"
  shows "T \<noteq> - 1 \<and> t = now + nat T + TIMEOUTS_MIN_DELAY
           \<and> (\<forall>j. 1 \<le> j \<and> j * I < nat T \<longrightarrow> c (now + j * I) \<noteq> Truthy)"
proof -
  let ?tid = "if T \<noteq> - 1 then Some (now + nat T) else None"
  from assms have "shape (on_interval c) ?tid I (now + I) (False, t)"
    unfolding waitUntil_def by (rule poll_shape)
  then obtain due where d: "?tid = Some due" "t = due + TIMEOUTS_MIN_DELAY"
      "\<forall>j. now + I + j * I < due \<longrightarrow> \<not> on_interval c (now + I + j * I)"
    unfolding shape_def by auto
  from d(1) have T: "T \<noteq> - 1" "due = now + nat T" by (auto split: if_splits)
  have "c (now + j * I) \<noteq> Truthy" if j1: "1 \<le> j" and j2: "j * I < nat T" for j
  proof -
    obtain j' where "j = Suc j'" by (cases j) (use j1 in auto)
    then show ?thesis using d(3) j2 T by (auto simp: on_interval_iff add.assoc)
  qed
  then show ?thesis using T d(2) by simp
qed

lemma waitUntil_settles:
  assumes "T \<noteq> - 1" and "0 < I"
  shows "\<exists>r t. waitUntil c T I now = Some (r, t)"
proof (cases "\<exists>k\<ge>1. k * I < nat T \<and> c (now + k * I) = Truthy")
  case True
  define k where "k = (LEAST k. 1 \<le> k \<and> k * I < nat T \<and> c (now + k * I) = Truthy)"
  from True have P: "1 \<le> k \<and> k * I < nat T \<and> c (now + k * I) = Truthy"
    unfolding k_def by - (rule LeastI_ex, blast)
  have least: "\<not> (1 \<le> j \<and> j * I < nat T \<and> c (now + j * I) = Truthy)" if "j < k" for j
    using that unfolding k_def by (rule not_less_Least)
  have mono: "j * I < nat T" if "j < k" for j
  proof -
    have "j * I \<le> k * I" using that by simp
    with P show ?thesis by linarith
  qed
  have "waitUntil c T I now = Some (True, now + k * I + TIMEOUTS_MIN_DELAY)"
  proof (rule waitUntil_true)
    show "1 \<le> k" using P by simp
    show "c (now + k * I) = Truthy" using P by simp
    show "c (now + j * I) \<noteq> Truthy" if "1 \<le> j" "j < k" for j
      using least[OF that(2)] mono[OF that(2)] that(1) by blast
    show "T = - 1 \<or> int (k * I) < T" using P by linarith
  qed
  then show ?thesis by blast
next
  case False
  then have "waitUntil c T I now = Some (False, now + nat T + TIMEOUTS_MIN_DELAY)"
    by (intro waitUntil_false assms) blast
  then show ?thesis by blast
qed

lemma waitUntil_returns:
  assumes "0 \<le> T" and "0 < I" and "int I < T"
  shows "waitUntil (\<lambda>t. returns b) T I now =
           Some (b, now + (if b then I else nat T) + TIMEOUTS_MIN_DELAY)"
proof (cases b)
  case True
  have "waitUntil (\<lambda>t. returns b) T I now = Some (True, now + 1 * I + TIMEOUTS_MIN_DELAY)"
    by (rule waitUntil_true) (use True assms in \<open>auto simp: returns_def\<close>)
  then show ?thesis using True by simp
next
  case False
  have "waitUntil (\<lambda>t. returns b) T I now = Some (False, now + nat T + TIMEOUTS_MIN_DELAY)"
    by (rule waitUntil_false) (use False assms in \<open>auto simp: returns_def\<close>)
  then show ?thesis using False by simp
qed

section \<open>The claims about \<^verbatim>\<open>waitUntil\<close>\<close>

text \<open>
  Claim C8. Called with timeout \<open>-1\<close> (and an interval in the range of the timers, positive
  and below \<open>2 ^ 31\<close>), \<^verbatim>\<open>waitUntil\<close> never resolves false. When it resolves true, it does so
  \<^verbatim>\<open>MIN_DELAY\<close> after the first poll at which the condition returned truthy; it does resolve
  true whenever some poll finds the condition truthy; and when no poll ever finds it truthy
  the promise never settles (the value \<open>None\<close>).
\<close>

theorem waitUntil_without_timeout:
  assumes "0 < I" and "I < 2 ^ 31"
  shows "(\<forall>t. waitUntil c (- 1) I now \<noteq> Some (False, t))
   \<and> (\<forall>t. waitUntil c (- 1) I now = Some (True, t) \<longrightarrow>
         (\<exists>k\<ge>1. t = now + k * I + TIMEOUTS_MIN_DELAY \<and> c (now + k * I) = Truthy
               \<and> (\<forall>j. 1 \<le> j \<and> j < k \<longrightarrow> c (now + j * I) \<noteq> Truthy)))
   \<and> (\<forall>k\<ge>1. c (now + k * I) = Truthy \<longrightarrow> (\<exists>t. waitUntil c (- 1) I now = Some (True, t)))
   \<and> ((\<forall>k\<ge>1. c (now + k * I) \<noteq> Truthy) \<longrightarrow> waitUntil c (- 1) I now = None)"
proof (intro conjI allI impI)
  fix t show "waitUntil c (- 1) I now \<noteq> Some (False, t)"
    using waitUntil_resolved_false[of c "- 1" I now t] by blast
next
  fix t assume "waitUntil c (- 1) I now = Some (True, t)"
  from waitUntil_resolved_true[OF this]
  show "\<exists>k\<ge>1. t = now + k * I + TIMEOUTS_MIN_DELAY \<and> c (now + k * I) = Truthy
               \<and> (\<forall>j. 1 \<le> j \<and> j < k \<longrightarrow> c (now + j * I) \<noteq> Truthy)"
    by blast
next
  fix k :: nat assume k: "1 \<le> k" "c (now + k * I) = Truthy"
  show "\<exists>t. waitUntil c (- 1) I now = Some (True, t)"
  proof (cases "waitUntil c (- 1) I now")
    case None
    define n where "n = (LEAST n. 1 \<le> n \<and> c (now + n * I) = Truthy)"
    have P: "1 \<le> n \<and> c (now + n * I) = Truthy"
      unfolding n_def by (rule LeastI[of _ k]) (use k in simp)
    have "\<not> (1 \<le> j \<and> c (now + j * I) = Truthy)" if "j < n" for j
      using that unfolding n_def by (rule not_less_Least)
    then have "waitUntil c (- 1) I now = Some (True, now + n * I + TIMEOUTS_MIN_DELAY)"
      by (intro waitUntil_true) (use P in auto)
    with None show ?thesis by simp
  next
    case (Some y)
    obtain r t where y: "y = (r, t)" by (cases y)
    show ?thesis
    proof (cases r)
      case True
      with Some y show ?thesis by auto
    next
      case False
      with Some y waitUntil_resolved_false[of c "- 1" I now t] show ?thesis by simp
    qed
  qed
next
  assume "\<forall>k\<ge>1. c (now + k * I) \<noteq> Truthy"
  then show "waitUntil c (- 1) I now = None"
    by (intro waitUntil_never) blast
qed

text \<open>
  Witness for C8: a condition that is truthy from 250 ms on is seen by the third poll, at
  300 ms, and the wait resolves true at 320 ms; a condition that is always falsy, or always
  throws, leaves the wait pending for ever.
\<close>

theorem waitUntil_without_timeout_witness:
  "(0::nat) < 100 \<and> (100::nat) < 2 ^ 31
   \<and> waitUntil (truthy_from 250) (- 1) 100 0 = Some (True, 320)
   \<and> waitUntil (always Falsy) (- 1) 100 0 = None
   \<and> waitUntil (always Throws) (- 1) 100 0 = None"
proof (intro conjI)
  show "(0::nat) < 100" and "(100::nat) < 2 ^ 31" by simp_all
next
  have h1: "(0::nat) < 100" and h2: "(100::nat) < 2 ^ 31" by simp_all
  note inst = waitUntil_without_timeout[where c = "truthy_from 250" and I = 100 and now = 0, OF h1 h2]
  have "truthy_from 250 (0 + 3 * 100) = Truthy"
    by (simp add: truthy_from_def returns_def)
  with inst obtain t where t: "waitUntil (truthy_from 250) (- 1) 100 0 = Some (True, t)"
    by (metis One_nat_def Suc_leI zero_less_numeral)
  with inst obtain k where k: "1 \<le> k" "t = 0 + k * 100 + TIMEOUTS_MIN_DELAY"
      "truthy_from 250 (0 + k * 100) = Truthy"
      "\<forall>j. 1 \<le> j \<and> j < k \<longrightarrow> truthy_from 250 (0 + j * 100) \<noteq> Truthy"
    by blast
  from k(3) have "3 \<le> k"
    by (simp add: truthy_from_def returns_def split: if_splits)
  moreover have "\<not> 3 < k"
  proof
    assume "3 < k"
    with k(4)[rule_format, of 3] have "truthy_from 250 (0 + 3 * 100) \<noteq> Truthy" by simp
    then show False by (simp add: truthy_from_def returns_def)
  qed
  ultimately have "k = 3" by simp
  with k(2) t show "waitUntil (truthy_from 250) (- 1) 100 0 = Some (True, 320)"
    by (simp add: TIMEOUTS_MIN_DELAY_def)
next
  have h1: "(0::nat) < 100" and h2: "(100::nat) < 2 ^ 31" by simp_all
  show "waitUntil (always Falsy) (- 1) 100 0 = None"
    using waitUntil_without_timeout[where c = "always Falsy" and I = 100 and now = 0, OF h1 h2]
    by (simp add: always_def)
next
  have h1: "(0::nat) < 100" and h2: "(100::nat) < 2 ^ 31" by simp_all
  show "waitUntil (always Throws) (- 1) 100 0 = None"
    using waitUntil_without_timeout[where c = "always Throws" and I = 100 and now = 0, OF h1 h2]
    by (simp add: always_def)
qed




text \<open>
  Claim C1, as stated: every condition that turns truthy within the timeout makes the wait
  resolve true. It fails, because the condition is only looked at by the polls. A condition that
  is truthy from the start is not seen when the timeout (50 ms) is due before the first poll
  (100 ms); and with the default timeout and interval a condition that is truthy only from
  150 ms to 180 ms falls between the polls at 100 ms and 200 ms. Both waits resolve false.
\<close>

theorem waitUntil_misses_truthy_counterexample:
  "always Truthy 0 = Truthy
   \<and> waitUntil (always Truthy) 50 100 0 = Some (False, 70)
   \<and> truthy_between 150 180 150 = Truthy
   \<and> waitUntil (truthy_between 150 180) TIMEOUTS_DEFAULT_WAIT TIMEOUTS_INTERVAL 0 = Some (False, 60020)"
proof (intro conjI)
  show "always Truthy 0 = Truthy" by (simp add: always_def)
  show "waitUntil (always Truthy) 50 100 0 = Some (False, 70)"
    using waitUntil_false[of 50 100 "always Truthy" 0]
    by (simp add: TIMEOUTS_MIN_DELAY_def)
  show "truthy_between 150 180 150 = Truthy" by (simp add: truthy_between_def returns_def)
  have "truthy_between 150 180 (0 + j * 100) \<noteq> Truthy" for j
  proof -
    have "j * 100 < 150 \<or> 180 < j * 100" by presburger
    then show ?thesis by (auto simp: truthy_between_def returns_def)
  qed
  then show "waitUntil (truthy_between 150 180) TIMEOUTS_DEFAULT_WAIT TIMEOUTS_INTERVAL 0 = Some (False, 60020)"
    using waitUntil_false[of 60000 100 "truthy_between 150 180" 0]
    by (simp add: TIMEOUTS_MIN_DELAY_def TIMEOUTS_DEFAULT_WAIT_def TIMEOUTS_INTERVAL_def)
qed

text \<open>
  Claim C1, amended. For a timeout and an interval in the range of the timers (timeout from
  0 to below \<open>2 ^ 31\<close>, interval positive and below \<open>2 ^ 31\<close>): when the condition
  returns truthy at a poll \<open>k\<close> (at \<open>k * interval\<close> after the call) that comes strictly before the
  timeout, and at no earlier poll, the wait resolves true, \<^verbatim>\<open>MIN_DELAY\<close> after that poll. When
  the condition is never truthy, the wait resolves false, no earlier than the timeout and
  no later than timeout + interval + \<^verbatim>\<open>MIN_DELAY\<close> after the call. \<^verbatim>\<open>MIN_DELAY\<close> is 20 ms and
  the default interval 100 ms.
\<close>

theorem waitUntil_resolution:
  assumes "0 \<le> T" and "T < 2 ^ 31" and "0 < I" and "I < 2 ^ 31"
  shows "(\<forall>k\<ge>1. int (k * I) < T \<and> c (now + k * I) = Truthy
             \<and> (\<forall>j. 1 \<le> j \<and> j < k \<longrightarrow> c (now + j * I) \<noteq> Truthy)
           \<longrightarrow> waitUntil c T I now = Some (True, now + k * I + TIMEOUTS_MIN_DELAY))
     \<and> ((\<forall>t. c t \<noteq> Truthy) \<longrightarrow>
           (\<exists>t. waitUntil c T I now = Some (False, t)
                \<and> now + nat T \<le> t \<and> t \<le> now + nat T + I + TIMEOUTS_MIN_DELAY))
     \<and> TIMEOUTS_MIN_DELAY = 20 \<and> TIMEOUTS_INTERVAL = 100"
proof (intro conjI allI impI)
  fix k :: nat
  assume "1 \<le> k" and "int (k * I) < T \<and> c (now + k * I) = Truthy
             \<and> (\<forall>j. 1 \<le> j \<and> j < k \<longrightarrow> c (now + j * I) \<noteq> Truthy)"
  then show "waitUntil c T I now = Some (True, now + k * I + TIMEOUTS_MIN_DELAY)"
    by (intro waitUntil_true) auto
next
  assume "\<forall>t. c t \<noteq> Truthy"
  then have "waitUntil c T I now = Some (False, now + nat T + TIMEOUTS_MIN_DELAY)"
    using assms by (intro waitUntil_false) auto
  then show "\<exists>t. waitUntil c T I now = Some (False, t)
                \<and> now + nat T \<le> t \<and> t \<le> now + nat T + I + TIMEOUTS_MIN_DELAY"
    by simp
qed (simp_all add: TIMEOUTS_MIN_DELAY_def TIMEOUTS_INTERVAL_def)

text \<open>
  Witness for the amended C1, with the default timeout and interval: truthy from 250 ms on
  resolves true at 320 ms; always falsy resolves false between 60000 ms and 60120 ms.
\<close>

theorem waitUntil_resolution_witness:
  "(0::int) \<le> 60000 \<and> (60000::int) < 2 ^ 31 \<and> (0::nat) < 100 \<and> (100::nat) < 2 ^ 31
   \<and> waitUntil (truthy_from 250) 60000 100 0 = Some (True, 320)
   \<and> (\<exists>t. waitUntil (always Falsy) 60000 100 0 = Some (False, t) \<and> 60000 \<le> t \<and> t \<le> 60120)"
proof -
  have h1: "(0::int) \<le> 60000" and h2: "(60000::int) < 2 ^ 31"
    and h3: "(0::nat) < 100" and h4: "(100::nat) < 2 ^ 31" by simp_all
  note thm1 = waitUntil_resolution[OF h1 h2 h3 h4, of "truthy_from 250" 0]
  note thm2 = waitUntil_resolution[OF h1 h2 h3 h4, of "always Falsy" 0]
  have "int (3 * 100) < 60000 \<and> truthy_from 250 (0 + 3 * 100) = Truthy
      \<and> (\<forall>j. 1 \<le> j \<and> j < 3 \<longrightarrow> truthy_from 250 (0 + j * 100) \<noteq> Truthy)"
    by (auto simp: truthy_from_def returns_def)
  with thm1 have "waitUntil (truthy_from 250) 60000 100 0 = Some (True, 0 + 3 * 100 + TIMEOUTS_MIN_DELAY)"
    by (metis One_nat_def Suc_leI zero_less_numeral)
  moreover have "\<forall>t. always Falsy t \<noteq> Truthy" by (simp add: always_def)
  with thm2 have "\<exists>t. waitUntil (always Falsy) 60000 100 0 = Some (False, t)
      \<and> 0 + nat 60000 \<le> t \<and> t \<le> 0 + nat 60000 + 100 + TIMEOUTS_MIN_DELAY"
    by blast
  then have "\<exists>t. waitUntil (always Falsy) 60000 100 0 = Some (False, t) \<and> 60000 \<le> t \<and> t \<le> 60120"
    by (simp add: TIMEOUTS_MIN_DELAY_def)
  ultimately show ?thesis by (simp add: TIMEOUTS_MIN_DELAY_def)
qed

section \<open>Strings and the mutation helpers\<close>

text \<open>\<open>str_includes\<close> is the substring test.\<close>

lemma starts_with_iff: "starts_with s sub \<longleftrightarrow> (\<exists>q. s = sub @ q)"
  by (induction s sub rule: starts_with.induct) auto

lemma str_includes_iff: "str_includes s sub \<longleftrightarrow> (\<exists>p q. s = p @ sub @ q)"
proof (induction s)
  case Nil
  then show ?case by auto
next
  case (Cons x xs)
  show ?case
  proof
    assume "str_includes (x # xs) sub"
    then consider "starts_with (x # xs) sub" | "str_includes xs sub" by auto
    then show "\<exists>p q. x # xs = p @ sub @ q"
    proof cases
      case 1
      then obtain q where "x # xs = sub @ q" by (auto simp: starts_with_iff)
      then have "x # xs = [] @ sub @ q" by simp
      then show ?thesis by blast
    next
      case 2
      with Cons.IH obtain p q where "xs = p @ sub @ q" by blast
      then have "x # xs = (x # p) @ sub @ q" by simp
      then show ?thesis by blast
    qed
  next
    assume "\<exists>p q. x # xs = p @ sub @ q"
    then obtain p q where pq: "x # xs = p @ sub @ q" by blast
    show "str_includes (x # xs) sub"
    proof (cases p)
      case Nil
      with pq have "starts_with (x # xs) sub" by (auto simp: starts_with_iff)
      then show ?thesis by simp
    next
      case (Cons y ys)
      with pq have "xs = ys @ sub @ q" by simp
      with Cons.IH have "str_includes xs sub" by blast
      then show ?thesis by simp
    qed
  qed
qed

text \<open>
  Claim C9. Each of the three mutation helpers, called with a null target, returns; what it
  returns is the state it was given with one more logged error: no style is set and no
  value is assigned, no event is dispatched.
\<close>

theorem mutation_helpers_on_null:
  "setNativeValue None v eff = eff\<lparr>errors := errors eff @ [''setNativeValue: Element is null'']\<rparr>
   \<and> clickElement doc None eff = eff\<lparr>errors := errors eff @ [''clickElement: Element is null'']\<rparr>
   \<and> setStyle None style v eff =
       eff\<lparr>errors := errors eff @ [''setStyle: Element is null for style='' @ style @ '', value='' @ v]\<rparr>
   \<and> styles (setNativeValue None v eff) = styles eff \<and> actions (setNativeValue None v eff) = actions eff
   \<and> styles (clickElement doc None eff) = styles eff \<and> actions (clickElement doc None eff) = actions eff
   \<and> styles (setStyle None style v eff) = styles eff \<and> actions (setStyle None style v eff) = actions eff"
  by (simp add: setNativeValue_def clickElement_def setStyle_def Logger_error_def)

text \<open>Witness for C9: \<^verbatim>\<open>setStyle\<close> on null and, for contrast, on an element.\<close>

theorem mutation_helpers_on_null_witness:
  "setStyle None ''display'' ''none'' no_effects =
     \<lparr>styles = (\<lambda>k. None), actions = [],
      errors = [''setStyle: Element is null for style=display, value=none'']\<rparr>
   \<and> actions (setStyle (Some 4) ''display'' ''none'' no_effects) = [SetStyle 4 ''display'' ''none'']"
  using mutation_helpers_on_null[of "''none''" no_effects "version_page []" "''display''"]
  by (simp add: no_effects_def setStyle_def perform_def)

section \<open>Version detection and dispatch\<close>

lemma getProtectVersion_find:
  "getProtectVersion doc =
     (case find (\<lambda>el. str_includes (innerText doc el) ''Protect'')
             (querySelectorAll doc SELECTORS_VERSION_TEXT) of
        Some el \<Rightarrow> Some (innerHTML doc el)
      | None \<Rightarrow> None)"
proof -
  have same: "(\<lambda>el. innerText doc el \<noteq> [] \<and> str_includes (innerText doc el) ''Protect'')
        = (\<lambda>el. str_includes (innerText doc el) ''Protect'')"
    by (rule ext) auto
  show ?thesis
    by (cases "querySelectorAll doc SELECTORS_VERSION_TEXT")
       (simp_all add: getProtectVersion_def Let_def same)
qed

lemma default_version_is_Gen3: "classify ''Protect 3.x'' = Gen3"
  by (simp add: classify_def)

text \<open>The examples of the specification: the labels it lists, and no label at all.\<close>

lemma version_examples:
  "classify ''Protect 3.40.2'' = Gen3"
  "classify ''Protect 4.1.0'' = Gen45"
  "classify ''Protect 5.0.0'' = Gen45"
  "getProtectVersion (version_page []) = None"
  "classify (detectedVersion (version_page [])) = Gen3"
  by (simp_all add: classify_def detectedVersion_def getProtectVersion_def version_page_def
      SELECTORS_VERSION_TEXT_def)



section \<open>Login\<close>

lemma waitUntil_result_iff:
  assumes "waitUntil c T I now = Some (r, t)" and "T \<noteq> - 1"
  shows "r \<longleftrightarrow> (\<exists>k\<ge>1. k * I < nat T \<and> c (now + k * I) = Truthy)"
proof (cases r)
  case True
  with assms waitUntil_resolved_true[of c T I now t] show ?thesis by auto
next
  case False
  with assms waitUntil_resolved_false[of c T I now t] show ?thesis by auto
qed

lemma returns_Truthy: "returns b = Truthy \<longleftrightarrow> b"
  by (simp add: returns_def)

lemma default_wait_settles:
  "\<exists>r t. waitUntil c TIMEOUTS_DEFAULT_WAIT TIMEOUTS_INTERVAL now = Some (r, t)"
  by (rule waitUntil_settles) (simp_all add: TIMEOUTS_DEFAULT_WAIT_def TIMEOUTS_INTERVAL_def)

text \<open>
  Claim C6. \<^verbatim>\<open>handleLogin\<close> returns false when the configuration is null or its user name or
  password is missing, without having touched the form. Otherwise, once the login button is
  there, it fills both fields, clicks the button, and returns what the wait for the URL to
  lose the substring \<^verbatim>\<open>login\<close> resolves to: true exactly when some poll before the default
  timeout finds the URL without it. When the login button does not appear it returns false.
\<close>

theorem handleLogin_result:
  "(cfg = None \<or> (\<exists>c. cfg = Some c \<and> (falsy (username c) \<or> falsy (password c)))
      \<longrightarrow> (\<exists>t e. handleLogin w cfg now eff = Some (False, t, e) \<and> actions e = actions eff))
   \<and> (\<forall>c t1. cfg = Some c \<and> \<not> falsy (username c) \<and> \<not> falsy (password c)
         \<and> waitUntil (\<lambda>t. returns (hasElements (querySelectorAll (w t) SELECTORS_LOGIN_BUTTON)))
              TIMEOUTS_DEFAULT_WAIT TIMEOUTS_INTERVAL now = Some (True, t1)
      \<longrightarrow> (\<exists>redirected t2.
             waitUntil (\<lambda>t. returns (\<not> checkUrl (w t) ''login''))
               TIMEOUTS_DEFAULT_WAIT TIMEOUTS_INTERVAL t1 = Some (redirected, t2)
           \<and> handleLogin w cfg now eff =
               Some (redirected, t2,
                 clickElement (w t1) (querySelector (w t1) SELECTORS_LOGIN_BUTTON)
                   (setNativeValue (querySelector (w t1) SELECTORS_PASSWORD_INPUT) (text_of (password c))
                     (setNativeValue (querySelector (w t1) SELECTORS_USERNAME_INPUT) (text_of (username c))
                        eff)))
           \<and> (redirected \<longleftrightarrow>
                (\<exists>k\<ge>1. k * 100 < 60000 \<and> \<not> str_includes (URL (w (t1 + k * 100))) ''login''))))
   \<and> (\<forall>t1. waitUntil (\<lambda>t. returns (hasElements (querySelectorAll (w t) SELECTORS_LOGIN_BUTTON)))
              TIMEOUTS_DEFAULT_WAIT TIMEOUTS_INTERVAL now = Some (False, t1)
      \<longrightarrow> (\<exists>e. handleLogin w cfg now eff = Some (False, t1, e) \<and> actions e = actions eff))"
proof (intro conjI allI impI)
  assume bad: "cfg = None \<or> (\<exists>c. cfg = Some c \<and> (falsy (username c) \<or> falsy (password c)))"
  obtain r t where "waitUntil (\<lambda>t. returns (hasElements (querySelectorAll (w t) SELECTORS_LOGIN_BUTTON)))
              TIMEOUTS_DEFAULT_WAIT TIMEOUTS_INTERVAL now = Some (r, t)"
    using default_wait_settles by blast
  with bad show "\<exists>t e. handleLogin w cfg now eff = Some (False, t, e) \<and> actions e = actions eff"
    by (auto simp: handleLogin_def Logger_error_def)
next
  fix c t1
  assume ok: "cfg = Some c \<and> \<not> falsy (username c) \<and> \<not> falsy (password c)
         \<and> waitUntil (\<lambda>t. returns (hasElements (querySelectorAll (w t) SELECTORS_LOGIN_BUTTON)))
              TIMEOUTS_DEFAULT_WAIT TIMEOUTS_INTERVAL now = Some (True, t1)"
  obtain r t2 where second:
    "waitUntil (\<lambda>t. returns (\<not> checkUrl (w t) ''login''))
       TIMEOUTS_DEFAULT_WAIT TIMEOUTS_INTERVAL t1 = Some (r, t2)"
    using default_wait_settles by blast
  have "r \<longleftrightarrow> (\<exists>k\<ge>1. k * TIMEOUTS_INTERVAL < nat TIMEOUTS_DEFAULT_WAIT
            \<and> returns (\<not> checkUrl (w (t1 + k * TIMEOUTS_INTERVAL)) ''login'') = Truthy)"
    by (rule waitUntil_result_iff[OF second]) (simp add: TIMEOUTS_DEFAULT_WAIT_def)
  then have iff: "r \<longleftrightarrow> (\<exists>k\<ge>1. k * 100 < 60000 \<and> \<not> str_includes (URL (w (t1 + k * 100))) ''login'')"
    by (simp add: returns_Truthy checkUrl_def TIMEOUTS_DEFAULT_WAIT_def TIMEOUTS_INTERVAL_def)
  have "handleLogin w cfg now eff =
               Some (r, t2,
                 clickElement (w t1) (querySelector (w t1) SELECTORS_LOGIN_BUTTON)
                   (setNativeValue (querySelector (w t1) SELECTORS_PASSWORD_INPUT) (text_of (password c))
                     (setNativeValue (querySelector (w t1) SELECTORS_USERNAME_INPUT) (text_of (username c))
                        eff)))"
    using ok second by (simp add: handleLogin_def run_all_def)
  with second iff
  show "\<exists>redirected t2.
             waitUntil (\<lambda>t. returns (\<not> checkUrl (w t) ''login''))
               TIMEOUTS_DEFAULT_WAIT TIMEOUTS_INTERVAL t1 = Some (redirected, t2)
           \<and> handleLogin w cfg now eff =
               Some (redirected, t2,
                 clickElement (w t1) (querySelector (w t1) SELECTORS_LOGIN_BUTTON)
                   (setNativeValue (querySelector (w t1) SELECTORS_PASSWORD_INPUT) (text_of (password c))
                     (setNativeValue (querySelector (w t1) SELECTORS_USERNAME_INPUT) (text_of (username c))
                        eff)))
           \<and> (redirected \<longleftrightarrow>
                (\<exists>k\<ge>1. k * 100 < 60000 \<and> \<not> str_includes (URL (w (t1 + k * 100))) ''login''))"
    by blast
next
  fix t1
  assume "waitUntil (\<lambda>t. returns (hasElements (querySelectorAll (w t) SELECTORS_LOGIN_BUTTON)))
              TIMEOUTS_DEFAULT_WAIT TIMEOUTS_INTERVAL now = Some (False, t1)"
  then show "\<exists>e. handleLogin w cfg now eff = Some (False, t1, e) \<and> actions e = actions eff"
    by (simp add: handleLogin_def Logger_error_def)
qed

text \<open>The example: the button is seen at the first poll, the redirect at the sixth poll after.\<close>

lemma login_world_button:
  "waitUntil (\<lambda>t. returns (hasElements (querySelectorAll (login_world t) SELECTORS_LOGIN_BUTTON)))
     TIMEOUTS_DEFAULT_WAIT TIMEOUTS_INTERVAL 0 = Some (True, 120)"
proof -
  have "hasElements (querySelectorAll (login_world 100) SELECTORS_LOGIN_BUTTON)"
    by (simp add: hasElements_def login_world_def login_page_def)
  then have "waitUntil (\<lambda>t. returns (hasElements (querySelectorAll (login_world t) SELECTORS_LOGIN_BUTTON)))
     60000 100 0 = Some (True, 0 + 1 * 100 + TIMEOUTS_MIN_DELAY)"
    by (intro waitUntil_true) (simp_all add: returns_def)
  then show ?thesis by (simp add: TIMEOUTS_INTERVAL_def TIMEOUTS_MIN_DELAY_def TIMEOUTS_DEFAULT_WAIT_def)
qed

lemma login_world_URL:
  "t < 700 \<Longrightarrow> str_includes (URL (login_world t)) ''login''"
  "700 \<le> t \<Longrightarrow> \<not> str_includes (URL (login_world t)) ''login''"
  by (simp_all add: login_world_def login_page_def version_page_def)

lemma login_world_redirect:
  "waitUntil (\<lambda>t. returns (\<not> checkUrl (login_world t) ''login''))
     TIMEOUTS_DEFAULT_WAIT TIMEOUTS_INTERVAL 120 = Some (True, 740)"
proof -
  have "waitUntil (\<lambda>t. returns (\<not> checkUrl (login_world t) ''login''))
     60000 100 120 = Some (True, 120 + 6 * 100 + TIMEOUTS_MIN_DELAY)"
  proof (rule waitUntil_true)
    show "returns (\<not> checkUrl (login_world (120 + 6 * 100)) ''login'') = Truthy"
      by (simp add: returns_def checkUrl_def login_world_URL)
    show "returns (\<not> checkUrl (login_world (120 + j * 100)) ''login'') \<noteq> Truthy"
      if "1 \<le> j" "j < 6" for j
    proof -
      have "120 + j * 100 < 700" using that by simp
      then show ?thesis
        by (simp add: returns_def checkUrl_def login_world_URL)
    qed
  qed simp_all
  then show ?thesis by (simp add: TIMEOUTS_INTERVAL_def TIMEOUTS_MIN_DELAY_def TIMEOUTS_DEFAULT_WAIT_def)
qed

lemma login_page_elements:
  "querySelector login_page SELECTORS_LOGIN_BUTTON = Some 1"
  "querySelector login_page SELECTORS_USERNAME_INPUT = Some 2"
  "querySelector login_page SELECTORS_PASSWORD_INPUT = Some 3"
  "click_method login_page e"
  by (simp_all add: login_page_def querySelector_def
        SELECTORS_LOGIN_BUTTON_def SELECTORS_USERNAME_INPUT_def SELECTORS_PASSWORD_INPUT_def)

text \<open>
  Witness for C6: on the example login page the driver fills the fields, clicks, and returns
  true at 740 ms; with a null configuration it returns false and does nothing to the form.
\<close>

theorem handleLogin_result_witness:
  "handleLogin login_world (Some example_config) 0 no_effects =
     Some (True, 740,
       \<lparr>styles = (\<lambda>k. None),
        actions = [SetValue 2 ''u'', InputEvent 2, SetValue 3 ''p'', InputEvent 3, NativeClick 1],
        errors = []\<rparr>)
   \<and> (\<exists>t e. handleLogin login_world None 0 no_effects = Some (False, t, e) \<and> actions e = [])"
proof
  note inst = handleLogin_result[of "Some example_config" login_world 0 no_effects,
      THEN conjunct2, THEN conjunct1, rule_format, of example_config 120]
  have pre: "Some example_config = Some example_config \<and> \<not> falsy (username example_config)
      \<and> \<not> falsy (password example_config)
      \<and> waitUntil (\<lambda>t. returns (hasElements (querySelectorAll (login_world t) SELECTORS_LOGIN_BUTTON)))
           TIMEOUTS_DEFAULT_WAIT TIMEOUTS_INTERVAL 0 = Some (True, 120)"
    by (simp add: login_world_button falsy_def example_config_def)
  from inst[OF pre] obtain redirected t2 where
    r: "waitUntil (\<lambda>t. returns (\<not> checkUrl (login_world t) ''login''))
               TIMEOUTS_DEFAULT_WAIT TIMEOUTS_INTERVAL 120 = Some (redirected, t2)"
    and h: "handleLogin login_world (Some example_config) 0 no_effects =
               Some (redirected, t2,
                 clickElement (login_world 120) (querySelector (login_world 120) SELECTORS_LOGIN_BUTTON)
                   (setNativeValue (querySelector (login_world 120) SELECTORS_PASSWORD_INPUT)
                      (text_of (password example_config))
                     (setNativeValue (querySelector (login_world 120) SELECTORS_USERNAME_INPUT)
                        (text_of (username example_config)) no_effects)))"
    by blast
  from r have "redirected = True" "t2 = 740" by (simp_all add: login_world_redirect)
  moreover have "login_world 120 = login_page" by (simp add: login_world_def)
  ultimately show "handleLogin login_world (Some example_config) 0 no_effects =
     Some (True, 740,
       \<lparr>styles = (\<lambda>k. None),
        actions = [SetValue 2 ''u'', InputEvent 2, SetValue 3 ''p'', InputEvent 3, NativeClick 1],
        errors = []\<rparr>)"
    using h
    by (simp add: login_page_elements clickElement_def
        setNativeValue_def perform_def no_effects_def text_of_def example_config_def)
next
  from handleLogin_result[of None login_world 0 no_effects, THEN conjunct1]
  show "\<exists>t e. handleLogin login_world None 0 no_effects = Some (False, t, e) \<and> actions e = []"
    by (simp add: no_effects_def)
qed

section \<open>The session watchdog\<close>

lemma decimal_example: "decimal ''1300000'' = Some 1300000"
  by (simp add: decimal_def)

text \<open>
  Claim C7. When the stored marker is absent (or empty) the watchdog is not armed: it returns
  at once and reloads nothing. When the marker is present, the trigger point is the expiry
  minus ten minutes, the condition is polled every 60000 ms without a timeout, and the page
  is reloaded after the first poll at which the clock is past the trigger point or the URL no
  longer contains the configured URL (the reload follows that poll by \<^verbatim>\<open>MIN_DELAY\<close>); when no
  poll ever finds the condition, the watchdog waits for ever. With an expiry five minutes
  ahead the trigger point is five minutes back, and the first poll reloads.
\<close>

theorem sessionWatchdog_behaviour:
  "(falsy (localStorage_getItem (w now) ''portal:localSessionsExpiresAt'')
      \<longrightarrow> sessionWatchdog w toNumber c now eff = Some (now, eff))
   \<and> (\<forall>marker expiry k.
         localStorage_getItem (w now) ''portal:localSessionsExpiresAt'' = Some marker \<and> marker \<noteq> []
         \<and> toNumber marker = expiry \<and> 1 \<le> k
         \<and> watchdog_fires w c expiry (now + k * 60000)
         \<and> (\<forall>j. 1 \<le> j \<and> j < k \<longrightarrow> \<not> watchdog_fires w c expiry (now + j * 60000))
      \<longrightarrow> sessionWatchdog w toNumber c now eff =
            Some (now + k * 60000 + TIMEOUTS_MIN_DELAY, perform Reload eff))
   \<and> (\<forall>marker expiry.
         localStorage_getItem (w now) ''portal:localSessionsExpiresAt'' = Some marker \<and> marker \<noteq> []
         \<and> toNumber marker = expiry
         \<and> (\<forall>k\<ge>1. \<not> watchdog_fires w c expiry (now + k * 60000))
      \<longrightarrow> sessionWatchdog w toNumber c now eff = None)
   \<and> (\<forall>marker.
         localStorage_getItem (w now) ''portal:localSessionsExpiresAt'' = Some marker \<and> marker \<noteq> []
         \<and> toNumber marker = Some (int now + 5 * 60 * 1000)
      \<longrightarrow> trigger_point (toNumber marker) = Some (int now - 5 * 60 * 1000)
          \<and> sessionWatchdog w toNumber c now eff =
            Some (now + 60000 + TIMEOUTS_MIN_DELAY, perform Reload eff))"
proof -
  let ?cond = "\<lambda>expiry t. returns (\<not> checkUrl (w t) (url c) \<or>
                 past_trigger t (map_option (\<lambda>e. e - 10 * 60 * 1000) expiry))"
  have cond: "?cond expiry t = Truthy \<longleftrightarrow> watchdog_fires w c expiry t" for expiry t
    by (simp add: returns_def watchdog_fires_def trigger_point_def checkUrl_def)
  have armed: "sessionWatchdog w toNumber c now eff =
      (case waitUntil (?cond (toNumber marker)) (- 1) 60000 now of
         None \<Rightarrow> None | Some (fired, t) \<Rightarrow> Some (t, perform Reload eff))"
    if "localStorage_getItem (w now) ''portal:localSessionsExpiresAt'' = Some marker" "marker \<noteq> []"
    for marker
    using that by (simp add: sessionWatchdog_def falsy_def text_of_def Let_def split: option.splits)
  have first: "sessionWatchdog w toNumber c now eff =
            Some (now + k * 60000 + TIMEOUTS_MIN_DELAY, perform Reload eff)"
    if m: "localStorage_getItem (w now) ''portal:localSessionsExpiresAt'' = Some marker" "marker \<noteq> []"
      and k: "1 \<le> k" "watchdog_fires w c (toNumber marker) (now + k * 60000)"
        "\<forall>j. 1 \<le> j \<and> j < k \<longrightarrow> \<not> watchdog_fires w c (toNumber marker) (now + j * 60000)"
    for marker k
  proof -
    have "waitUntil (?cond (toNumber marker)) (- 1) 60000 now
            = Some (True, now + k * 60000 + TIMEOUTS_MIN_DELAY)"
      by (rule waitUntil_true) (use k cond in auto)
    then show ?thesis by (simp add: armed[OF m])
  qed
  show ?thesis
  proof (intro conjI allI impI)
    assume "falsy (localStorage_getItem (w now) ''portal:localSessionsExpiresAt'')"
    then show "sessionWatchdog w toNumber c now eff = Some (now, eff)"
      by (simp add: sessionWatchdog_def)
  next
    fix marker expiry k
    assume "localStorage_getItem (w now) ''portal:localSessionsExpiresAt'' = Some marker \<and> marker \<noteq> []
         \<and> toNumber marker = expiry \<and> 1 \<le> k
         \<and> watchdog_fires w c expiry (now + k * 60000)
         \<and> (\<forall>j. 1 \<le> j \<and> j < k \<longrightarrow> \<not> watchdog_fires w c expiry (now + j * 60000))"
    then show "sessionWatchdog w toNumber c now eff =
            Some (now + k * 60000 + TIMEOUTS_MIN_DELAY, perform Reload eff)"
      using first[of marker k] by blast
  next
    fix marker expiry
    assume a: "localStorage_getItem (w now) ''portal:localSessionsExpiresAt'' = Some marker \<and> marker \<noteq> []
         \<and> toNumber marker = expiry
         \<and> (\<forall>k\<ge>1. \<not> watchdog_fires w c expiry (now + k * 60000))"
    have "waitUntil (?cond (toNumber marker)) (- 1) 60000 now = None"
      by (rule waitUntil_never) (use a cond in auto)
    then show "sessionWatchdog w toNumber c now eff = None"
      using a by (simp add: armed)
  next
    fix marker
    assume a: "localStorage_getItem (w now) ''portal:localSessionsExpiresAt'' = Some marker \<and> marker \<noteq> []
         \<and> toNumber marker = Some (int now + 5 * 60 * 1000)"
    then show "trigger_point (toNumber marker) = Some (int now - 5 * 60 * 1000)"
      by (simp add: trigger_point_def)
    have "watchdog_fires w c (toNumber marker) (now + 1 * 60000)"
      using a by (simp add: watchdog_fires_def trigger_point_def past_trigger_def)
    then have "sessionWatchdog w toNumber c now eff =
            Some (now + 1 * 60000 + TIMEOUTS_MIN_DELAY, perform Reload eff)"
      using a by (intro first) auto
    then show "sessionWatchdog w toNumber c now eff =
            Some (now + 60000 + TIMEOUTS_MIN_DELAY, perform Reload eff)"
      by simp
  qed
qed

text \<open>
  Witness for C7: at time 1000000 with the marker \<^verbatim>\<open>1300000\<close> (five minutes ahead) the page is
  reloaded at 1060020; without a marker nothing happens.
\<close>

theorem sessionWatchdog_behaviour_witness:
  "sessionWatchdog (session_world (Some ''1300000'')) decimal example_config 1000000 no_effects
     = Some (1060020, \<lparr>styles = (\<lambda>k. None), actions = [Reload], errors = []\<rparr>)
   \<and> sessionWatchdog (session_world None) decimal example_config 1000000 no_effects
     = Some (1000000, no_effects)"
proof
  have m: "localStorage_getItem (session_world (Some ''1300000'') 1000000) ''portal:localSessionsExpiresAt''
        = Some ''1300000''"
    by (simp add: session_world_def session_page_def)
  from sessionWatchdog_behaviour[of "session_world (Some ''1300000'')" 1000000 decimal example_config no_effects,
      THEN conjunct2, THEN conjunct2, THEN conjunct2, rule_format, of "''1300000''"] m
  have "sessionWatchdog (session_world (Some ''1300000'')) decimal example_config 1000000 no_effects
     = Some (1000000 + 60000 + TIMEOUTS_MIN_DELAY, perform Reload no_effects)"
    by (simp add: decimal_example)
  then show "sessionWatchdog (session_world (Some ''1300000'')) decimal example_config 1000000 no_effects
     = Some (1060020, \<lparr>styles = (\<lambda>k. None), actions = [Reload], errors = []\<rparr>)"
    by (simp add: TIMEOUTS_MIN_DELAY_def perform_def no_effects_def)
next
  have "falsy (localStorage_getItem (session_world None 1000000) ''portal:localSessionsExpiresAt'')"
    by (simp add: session_world_def session_page_def falsy_def)
  with sessionWatchdog_behaviour[of "session_world None" 1000000 decimal example_config no_effects,
      THEN conjunct1]
  show "sessionWatchdog (session_world None) decimal example_config 1000000 no_effects
     = Some (1000000, no_effects)"
    by blast
qed

section \<open>The live-view drivers\<close>

subsection \<open>Operations that are uniform on styles\<close>

text \<open>Applied twice, such an operation leaves the styles as after the first application.\<close>

lemma style_uniform_idem:
  assumes "style_uniform f"
  shows "styles (f (f e)) = styles (f e)"
proof (rule ext)
  fix k
  from assms have "(styles (f e) k = styles e k \<and> styles (f (f e)) k = styles (f e) k)
               \<or> styles (f e) k = styles (f (f e)) k"
    unfolding style_uniform_def by blast
  then show "styles (f (f e)) k = styles (f e) k" by auto
qed

lemma uniform_skip: "style_uniform skip"
  by (simp add: style_uniform_def skip_def)

lemma uniform_id: "style_uniform (\<lambda>e. e)"
  by (simp add: style_uniform_def)

lemma uniform_Logger_error: "style_uniform (Logger_error m)"
  by (simp add: style_uniform_def Logger_error_def)

lemma uniform_perform: "style_uniform (perform a)"
  by (simp add: style_uniform_def perform_def)

lemma uniform_setStyle: "style_uniform (setStyle el style v)"
  by (cases el) (auto simp: style_uniform_def setStyle_def Logger_error_def perform_def)

lemma uniform_setNativeValue: "style_uniform (setNativeValue el v)"
  by (cases el) (auto simp: style_uniform_def setNativeValue_def Logger_error_def perform_def)

lemma uniform_clickElement: "style_uniform (clickElement doc el)"
  by (cases el) (auto simp: style_uniform_def clickElement_def Logger_error_def perform_def)

lemma uniform_comp:
  assumes "style_uniform f" and "style_uniform g"
  shows "style_uniform (\<lambda>e. g (f e))"
  unfolding style_uniform_def
proof (intro allI)
  fix e e' k
  from assms(2) have g: "(styles (g (f e)) k = styles (f e) k \<and> styles (g (f e')) k = styles (f e') k)
      \<or> styles (g (f e)) k = styles (g (f e')) k"
    unfolding style_uniform_def by blast
  from assms(1) have f: "(styles (f e) k = styles e k \<and> styles (f e') k = styles e' k)
      \<or> styles (f e) k = styles (f e') k"
    unfolding style_uniform_def by blast
  from f g show "(styles (g (f e)) k = styles e k \<and> styles (g (f e')) k = styles e' k)
      \<or> styles (g (f e)) k = styles (g (f e')) k"
    by auto
qed

lemma uniform_if:
  "style_uniform f \<Longrightarrow> style_uniform g \<Longrightarrow> style_uniform (if b then f else g)"
  by simp

lemma uniform_fold:
  assumes "\<And>x. x \<in> set xs \<Longrightarrow> style_uniform (h x)"
  shows "style_uniform (fold h xs)"
  using assms
proof (induction xs)
  case Nil
  show ?case by (simp add: style_uniform_def)
next
  case (Cons x xs)
  have "style_uniform (\<lambda>e. fold h xs (h x e))"
    by (rule uniform_comp) (use Cons in auto)
  then show ?case by (simp add: comp_def)
qed

lemma uniform_run_all:
  assumes "\<And>f. f \<in> set fs \<Longrightarrow> style_uniform f"
  shows "style_uniform (run_all fs)"
proof -
  have "style_uniform (fold (\<lambda>statement. statement) fs)"
    by (rule uniform_fold) (use assms in auto)
  then show ?thesis
    by (simp add: run_all_def[abs_def])
qed

lemma uniform_run_all_Nil: "style_uniform (run_all [])"
  by (rule uniform_run_all) simp

lemma uniform_run_all_Cons:
  "style_uniform f \<Longrightarrow> style_uniform (run_all fs) \<Longrightarrow> style_uniform (run_all (f # fs))"
  using uniform_comp[of f "run_all fs"] by (simp add: run_all_def[abs_def] comp_def)

lemmas uniform_intros =
  uniform_run_all_Cons uniform_run_all_Nil uniform_setStyle uniform_skip uniform_if

lemma uniform_let_if:
  "style_uniform (let x = a in if x \<noteq> None then setStyle x style v else skip)"
  by (simp add: Let_def uniform_setStyle uniform_skip)

lemma uniform_clickModalCloseButtons: "style_uniform (clickModalCloseButtons doc)"
proof -
  have "style_uniform (if hasElements (querySelectorAll doc SELECTORS_MODAL_PORTAL) then
        fold (\<lambda>modalPortal.
                if elementExists (querySelectorAll_in doc modalPortal SELECTORS_MODAL_CLOSE_BUTTON) 0
                then clickElement doc
                       (item (querySelectorAll_in doc modalPortal SELECTORS_MODAL_CLOSE_BUTTON) 0)
                else skip)
          (querySelectorAll doc SELECTORS_MODAL_PORTAL)
      else (\<lambda>e. e))"
    by (intro uniform_if uniform_fold uniform_clickElement uniform_skip uniform_id)
  moreover have "clickModalCloseButtons doc = (if hasElements (querySelectorAll doc SELECTORS_MODAL_PORTAL) then
        fold (\<lambda>modalPortal.
                if elementExists (querySelectorAll_in doc modalPortal SELECTORS_MODAL_CLOSE_BUTTON) 0
                then clickElement doc
                       (item (querySelectorAll_in doc modalPortal SELECTORS_MODAL_CLOSE_BUTTON) 0)
                else skip)
          (querySelectorAll doc SELECTORS_MODAL_PORTAL)
      else (\<lambda>e. e))"
    by (rule ext) (simp add: clickModalCloseButtons_def)
  ultimately show ?thesis by simp
qed

lemma uniform_V2_styles: "style_uniform (V2_styles doc)"
  unfolding V2_styles_def by (intro uniform_intros)

lemma uniform_V3_base_styles: "style_uniform (V3_base_styles doc)"
  unfolding V3_base_styles_def by (intro uniform_intros)

lemma V3_dashboard_styles_fst:
  "fst (V3_dashboard_styles doc e) \<longleftrightarrow> querySelector doc V3_LIVE_VIEW_WRAPPER \<noteq> None"
  by (simp add: V3_dashboard_styles_def Let_def split: option.splits)

lemma uniform_V3_dashboard_styles: "style_uniform (\<lambda>e. snd (V3_dashboard_styles doc e))"
proof -
  let ?first = "run_all
            [setStyle (querySelector doc V3_WIDGETS) ''display'' ''none'',
             setStyle (querySelector doc V3_HEADER) ''display'' ''none'',
             setStyle (querySelector doc V3_EXPAND_BUTTON) ''display'' ''none'',
             setStyle (querySelector doc V3_CONTENT) ''display'' ''block'',
             setStyle (querySelector doc V3_CONTENT) ''padding'' ''0'']"
  have first: "style_uniform ?first"
    by (intro uniform_intros)
  show ?thesis
  proof (cases "querySelector doc V3_LIVE_VIEW_WRAPPER")
    case None
    then have "(\<lambda>e. snd (V3_dashboard_styles doc e)) = ?first"
      by (intro ext) (simp add: V3_dashboard_styles_def Let_def)
    with first show ?thesis by simp
  next
    case (Some wr)
    let ?second = "run_all
                [let scrollable = querySelector_in doc wr V3_SCROLLABLE
                 in if scrollable \<noteq> None then setStyle scrollable ''paddingBottom'' ''0'' else skip,
                 let viewportWrapper = querySelector_in doc wr V3_VIEWPORT_WRAPPER
                 in if viewportWrapper \<noteq> None
                    then setStyle viewportWrapper ''maxWidth'' ''calc(177.778vh - 50px)''
                    else skip]"
    have second: "style_uniform ?second"
      by (intro uniform_intros uniform_let_if)
    from Some have "(\<lambda>e. snd (V3_dashboard_styles doc e)) = (\<lambda>e. ?second (?first e))"
      by (intro ext) (simp add: V3_dashboard_styles_def Let_def)
    with uniform_comp[OF first second] show ?thesis by simp
  qed
qed

lemma uniform_V3_camera_names: "style_uniform (V3_camera_names doc)"
  unfolding V3_camera_names_def
  by (intro uniform_fold uniform_intros)

lemma uniform_forEach_setStyle: "style_uniform (forEach_setStyle doc sel style v)"
  unfolding forEach_setStyle_def
  by (intro uniform_fold uniform_setStyle)

lemma uniform_case_option:
  "style_uniform f \<Longrightarrow> (\<And>x. style_uniform (g x)) \<Longrightarrow> style_uniform (case a of None \<Rightarrow> f | Some x \<Rightarrow> g x)"
  by (cases a) simp_all

lemma uniform_V4_V5_styles: "style_uniform (V4_V5_styles doc)"
  unfolding V4_V5_styles_def
  by (intro uniform_intros uniform_case_option uniform_let_if)

subsection \<open>The drivers on a page that stays as it is\<close>

lemma frozen_apply: "frozen doc t = doc"
  by (simp add: frozen_def)

lemma default_wait_returns:
  "waitUntil (\<lambda>t. returns b) TIMEOUTS_DEFAULT_WAIT TIMEOUTS_INTERVAL now =
     Some (b, now + (if b then 120 else 60020))"
  using waitUntil_returns[of 60000 100 b now]
  by (simp add: TIMEOUTS_DEFAULT_WAIT_def TIMEOUTS_INTERVAL_def TIMEOUTS_MIN_DELAY_def)

lemma slow_wait_returns:
  "waitUntil (\<lambda>t. returns b) TIMEOUTS_DEFAULT_WAIT 500 now =
     Some (b, now + (if b then 520 else 60020))"
  using waitUntil_returns[of 60000 500 b now]
  by (simp add: TIMEOUTS_DEFAULT_WAIT_def TIMEOUTS_MIN_DELAY_def)

lemma closeAllModals_frozen:
  "closeAllModals (frozen doc) now eff =
     Some (allModalsClosed doc, now + (if allModalsClosed doc then 120 else 60020),
           clickModalCloseButtons doc eff)"
  by (simp add: closeAllModals_def frozen_apply default_wait_returns)

lemma querySelector_hasElements:
  "hasElements (querySelectorAll doc sel) \<longleftrightarrow> querySelector doc sel \<noteq> None"
  by (simp add: hasElements_def querySelector_def split: list.splits)

lemma handleLiveviewV2_frozen:
  "handleLiveviewV2 (frozen doc) now eff =
     (if hasElements (querySelectorAll doc V2_VIEWPORT_WRAPPER)
      then Some (True, now + 120 + (if allModalsClosed doc then 120 else 60020),
                 V2_styles doc (clickModalCloseButtons doc eff))
      else Some (False, now + 60020, Logger_error ''Liveview not found for Protect 2.x'' eff))"
  by (simp add: handleLiveviewV2_def frozen_apply default_wait_returns closeAllModals_frozen)

text \<open>
  A driver whose result does not depend on the state and whose effect is one uniform operation
  can be run again, at any time, without changing the styles it has left.
\<close>

lemma idempotent_from_static:
  assumes "style_uniform f" and "\<And>now eff. \<exists>t. D now eff = Some (r, t, f eff)"
  shows "\<exists>r t e. D now eff = Some (r, t, e)
           \<and> (\<forall>now'. \<exists>t' e'. D now' e = Some (r, t', e') \<and> styles e' = styles e)"
proof -
  from assms(2) obtain t where first: "D now eff = Some (r, t, f eff)" by blast
  have "\<exists>t' e'. D now' (f eff) = Some (r, t', e') \<and> styles e' = styles (f eff)" for now'
  proof -
    from assms(2) obtain t' where "D now' (f eff) = Some (r, t', f (f eff))" by blast
    with style_uniform_idem[OF assms(1)] show ?thesis by simp
  qed
  with first show ?thesis by blast
qed

lemma static_intro:
  assumes "style_uniform f" and "\<And>now eff. \<exists>t. D now eff = Some (r, t, f eff)"
  shows "\<exists>r f. style_uniform f \<and> (\<forall>now eff. \<exists>t. D now eff = Some (r, t, f eff))"
  using assms by blast

lemma handleLiveviewV2_static:
  "\<exists>r f. style_uniform f \<and> (\<forall>now eff. \<exists>t. handleLiveviewV2 (frozen doc) now eff = Some (r, t, f eff))"
proof (cases "hasElements (querySelectorAll doc V2_VIEWPORT_WRAPPER)")
  case True
  let ?f = "\<lambda>e. V2_styles doc (clickModalCloseButtons doc e)"
  have u: "style_uniform ?f"
    by (rule uniform_comp[OF uniform_clickModalCloseButtons uniform_V2_styles])
  have "\<exists>t. handleLiveviewV2 (frozen doc) now eff = Some (True, t, ?f eff)" for now eff
    using True by (simp add: handleLiveviewV2_frozen)
  with u show ?thesis by (rule static_intro)
next
  case False
  have "\<exists>t. handleLiveviewV2 (frozen doc) now eff
          = Some (False, t, Logger_error ''Liveview not found for Protect 2.x'' eff)" for now eff
    using False by (simp add: handleLiveviewV2_frozen)
  with uniform_Logger_error show ?thesis by (rule static_intro)
qed

lemma handleLiveviewV3_static:
  "\<exists>r f. style_uniform f \<and> (\<forall>now eff. \<exists>t. handleLiveviewV3 (frozen doc) now eff = Some (r, t, f eff))"
proof -
  let ?live = "hasElements (querySelectorAll doc V3_LIVE_VIEW_WRAPPER)"
  let ?widgets = "hasElements (querySelectorAll doc V3_WIDGETS) \<and>
                  hasElements (querySelectorAll doc V3_HEADER) \<and>
                  hasElements (querySelectorAll doc V3_EXPAND_BUTTON)"
  let ?cams = "hasElements (querySelectorAll doc V3_CAMERA_NAME_WRAPPER)"
  let ?base = "\<lambda>e. V3_base_styles doc (clickModalCloseButtons doc e)"
  let ?dash = "\<lambda>e. snd (V3_dashboard_styles doc (?base e))"
  have ub: "style_uniform ?base"
    by (rule uniform_comp[OF uniform_clickModalCloseButtons uniform_V3_base_styles])
  have ud: "style_uniform ?dash"
    by (rule uniform_comp[OF ub uniform_V3_dashboard_styles])
  show ?thesis
  proof (cases ?live)
    case False
    have "\<exists>t. handleLiveviewV3 (frozen doc) now eff
            = Some (False, t, Logger_error ''Liveview not found for Protect 3.x'' eff)" for now eff
      using False by (simp add: handleLiveviewV3_def frozen_apply default_wait_returns)
    with uniform_Logger_error show ?thesis by (rule static_intro)
  next
    case live: True
    show ?thesis
    proof (cases ?widgets)
      case False
      let ?f = "\<lambda>e. Logger_error ''Widgets not found for Protect 3.x'' (?base e)"
      have u: "style_uniform ?f"
        by (rule uniform_comp[OF ub uniform_Logger_error])
      have "\<exists>t. handleLiveviewV3 (frozen doc) now eff = Some (False, t, ?f eff)" for now eff
        using live False
        by (simp add: handleLiveviewV3_def frozen_apply default_wait_returns closeAllModals_frozen)
      with u show ?thesis by (rule static_intro)
    next
      case widgets: True
      have ok: "V3_dashboard_styles doc e = (True, snd (V3_dashboard_styles doc e))" for e
        using live V3_dashboard_styles_fst[of doc e]
        by (simp add: querySelector_hasElements prod_eq_iff)
      let ?f = "\<lambda>e. (if ?cams then V3_camera_names doc else skip) (?dash e)"
      have "style_uniform (if ?cams then V3_camera_names doc else skip)"
        by (intro uniform_if uniform_V3_camera_names uniform_skip)
      then have u: "style_uniform ?f"
        by (rule uniform_comp[OF ud])
      have "\<exists>t. handleLiveviewV3 (frozen doc) now eff = Some (True, t, ?f eff)" for now eff
      proof -
        obtain e4 where e4: "V3_dashboard_styles doc (?base eff) = (True, e4)"
          using ok by blast
        show ?thesis
          using live widgets
          by (simp add: handleLiveviewV3_def frozen_apply default_wait_returns
              closeAllModals_frozen e4)
      qed
      with u show ?thesis by (rule static_intro)
    qed
  qed
qed

lemma handleLiveviewV4andV5_static:
  "\<exists>r f. style_uniform f \<and>
     (\<forall>now eff. \<exists>t. handleLiveviewV4andV5 (frozen doc) now eff = Some (r, t, f eff))"
proof (cases "hasElements (querySelectorAll doc V4_V5_FULLSCREEN_WRAPPER)")
  case False
  have "\<exists>t. handleLiveviewV4andV5 (frozen doc) now eff
          = Some (False, t, Logger_error ''Liveview not found for Protect 4.x/5.x'' eff)" for now eff
    using False by (simp add: handleLiveviewV4andV5_def frozen_apply default_wait_returns)
  with uniform_Logger_error show ?thesis by (rule static_intro)
next
  case True
  let ?options = "hasElements (querySelectorAll doc V4_V5_OPTION_BUTTON)"
  let ?player = "hasElements (querySelectorAll doc V4_V5_PLAYER_OPTIONS)"
  let ?f1 = "\<lambda>e. V4_V5_styles doc (clickModalCloseButtons doc e)"
  let ?f2 = "\<lambda>e. (if ?options then forEach_setStyle doc V4_V5_OPTION_BUTTON ''display'' ''none''
                   else skip) (?f1 e)"
  let ?f3 = "\<lambda>e. (if ?player then forEach_setStyle doc V4_V5_PLAYER_OPTIONS ''display'' ''none''
                   else skip) (?f2 e)"
  let ?f = "\<lambda>e. forEach_setStyle doc V4_V5_ERROR_WRAPPER ''background-color'' ''black'' (?f3 e)"
  have u1: "style_uniform ?f1"
    by (rule uniform_comp[OF uniform_clickModalCloseButtons uniform_V4_V5_styles])
  have "style_uniform (if ?options then forEach_setStyle doc V4_V5_OPTION_BUTTON ''display'' ''none''
                       else skip)"
    by (intro uniform_if uniform_forEach_setStyle uniform_skip)
  then have u2: "style_uniform ?f2"
    by (rule uniform_comp[OF u1])
  have "style_uniform (if ?player then forEach_setStyle doc V4_V5_PLAYER_OPTIONS ''display'' ''none''
                       else skip)"
    by (intro uniform_if uniform_forEach_setStyle uniform_skip)
  then have u3: "style_uniform ?f3"
    by (rule uniform_comp[OF u2])
  have u: "style_uniform ?f"
    by (rule uniform_comp[OF u3 uniform_forEach_setStyle])
  have "\<exists>t. handleLiveviewV4andV5 (frozen doc) now eff = Some (True, t, ?f eff)" for now eff
    using True
    by (simp add: handleLiveviewV4andV5_def frozen_apply default_wait_returns slow_wait_returns
        closeAllModals_frozen)
  with u show ?thesis by (rule static_intro)
qed

text \<open>
  Claim C3. On a page that stays as it is, each of the three drivers returns; run again, at
  any later time, on the state it has left, it returns the same result and leaves every
  style as the first run left it. A single \<^verbatim>\<open>setStyle\<close>, repeated, changes no style either.
\<close>

theorem drivers_idempotent:
  "(\<exists>r t e. handleLiveviewV2 (frozen doc) now eff = Some (r, t, e)
      \<and> (\<forall>now'. \<exists>t' e'. handleLiveviewV2 (frozen doc) now' e = Some (r, t', e')
                         \<and> styles e' = styles e))
   \<and> (\<exists>r t e. handleLiveviewV3 (frozen doc) now eff = Some (r, t, e)
      \<and> (\<forall>now'. \<exists>t' e'. handleLiveviewV3 (frozen doc) now' e = Some (r, t', e')
                         \<and> styles e' = styles e))
   \<and> (\<exists>r t e. handleLiveviewV4andV5 (frozen doc) now eff = Some (r, t, e)
      \<and> (\<forall>now'. \<exists>t' e'. handleLiveviewV4andV5 (frozen doc) now' e = Some (r, t', e')
                         \<and> styles e' = styles e))
   \<and> styles (setStyle el style v (setStyle el style v eff)) = styles (setStyle el style v eff)"
proof (intro conjI)
  from handleLiveviewV2_static[of doc] obtain r f where
    "style_uniform f" "\<And>now eff. \<exists>t. handleLiveviewV2 (frozen doc) now eff = Some (r, t, f eff)"
    by blast
  then show "\<exists>r t e. handleLiveviewV2 (frozen doc) now eff = Some (r, t, e)
      \<and> (\<forall>now'. \<exists>t' e'. handleLiveviewV2 (frozen doc) now' e = Some (r, t', e')
                         \<and> styles e' = styles e)"
    by (rule idempotent_from_static)
next
  from handleLiveviewV3_static[of doc] obtain r f where
    "style_uniform f" "\<And>now eff. \<exists>t. handleLiveviewV3 (frozen doc) now eff = Some (r, t, f eff)"
    by blast
  then show "\<exists>r t e. handleLiveviewV3 (frozen doc) now eff = Some (r, t, e)
      \<and> (\<forall>now'. \<exists>t' e'. handleLiveviewV3 (frozen doc) now' e = Some (r, t', e')
                         \<and> styles e' = styles e)"
    by (rule idempotent_from_static)
next
  from handleLiveviewV4andV5_static[of doc] obtain r f where
    "style_uniform f"
    "\<And>now eff. \<exists>t. handleLiveviewV4andV5 (frozen doc) now eff = Some (r, t, f eff)"
    by blast
  then show "\<exists>r t e. handleLiveviewV4andV5 (frozen doc) now eff = Some (r, t, e)
      \<and> (\<forall>now'. \<exists>t' e'. handleLiveviewV4andV5 (frozen doc) now' e = Some (r, t', e')
                         \<and> styles e' = styles e)"
    by (rule idempotent_from_static)
next
  show "styles (setStyle el style v (setStyle el style v eff)) = styles (setStyle el style v eff)"
    by (rule style_uniform_idem[OF uniform_setStyle])
qed

subsection \<open>The drivers on the example page\<close>

lemma example_page_document:
  "querySelectorAll example_page ''body'' = [0]"
  "querySelectorAll example_page V2_VIEWPORT_WRAPPER = [1]"
  "querySelectorAll example_page SELECTORS_HEADER = [2]"
  "querySelectorAll example_page SELECTORS_NAV = [3]"
  "querySelectorAll example_page SELECTORS_MODAL_PORTAL = [5]"
  "querySelectorAll example_page V3_LIVE_VIEW_WRAPPER = [10]"
  "querySelectorAll example_page V3_WIDGETS = [11]"
  "querySelectorAll example_page V3_HEADER = [12]"
  "querySelectorAll example_page V3_EXPAND_BUTTON = [13]"
  "querySelectorAll example_page V3_CONTENT = [14]"
  "querySelectorAll example_page V3_CAMERA_NAME_WRAPPER = [20, 21]"
  "querySelectorAll example_page V4_V5_FULLSCREEN_WRAPPER = [30]"
  "querySelectorAll example_page V4_V5_LIVE_VIEW_WRAPPER = [31]"
  "querySelectorAll example_page V4_V5_WIDGETS = [11]"
  "querySelectorAll example_page V4_V5_EXPAND_BUTTON = [13]"
  "querySelectorAll example_page V4_V5_CONTENT = [14]"
  "querySelectorAll example_page V4_V5_OPTION_BUTTON = [40, 41]"
  "querySelectorAll example_page V4_V5_PLAYER_OPTIONS = []"
  "querySelectorAll example_page V4_V5_ERROR_WRAPPER = [50]"
  by (simp_all add: example_page_def V2_VIEWPORT_WRAPPER_def SELECTORS_HEADER_def SELECTORS_NAV_def
      SELECTORS_MODAL_PORTAL_def V3_LIVE_VIEW_WRAPPER_def V3_WIDGETS_def V3_HEADER_def
      V3_EXPAND_BUTTON_def V3_CONTENT_def V3_CAMERA_NAME_WRAPPER_def V4_V5_FULLSCREEN_WRAPPER_def
      V4_V5_LIVE_VIEW_WRAPPER_def V4_V5_WIDGETS_def V4_V5_EXPAND_BUTTON_def V4_V5_CONTENT_def
      V4_V5_OPTION_BUTTON_def V4_V5_PLAYER_OPTIONS_def V4_V5_ERROR_WRAPPER_def)

lemma example_page_inside:
  "querySelectorAll_in example_page 5 SELECTORS_MODAL_CLOSE_BUTTON = [6]"
  "querySelectorAll_in example_page 10 V3_SCROLLABLE = [15]"
  "querySelectorAll_in example_page 10 V3_VIEWPORT_WRAPPER = [16]"
  "querySelectorAll_in example_page 31 V4_V5_WIDGET = [32]"
  "querySelectorAll_in example_page 31 V4_V5_SCROLLABLE = [33]"
  "querySelectorAll_in example_page 31 V4_V5_VIEWPORT_WRAPPER = [34]"
  "children_length example_page 5 = 1"
  "click_method example_page 6 = False"
  by (simp_all add: example_page_def SELECTORS_MODAL_CLOSE_BUTTON_def V3_SCROLLABLE_def
      V3_VIEWPORT_WRAPPER_def V4_V5_WIDGET_def V4_V5_SCROLLABLE_def V4_V5_VIEWPORT_WRAPPER_def)

lemma example_page_modals:
  "allModalsClosed example_page = False"
  "clickModalCloseButtons example_page e = perform (ClickEvent 6) e"
  by (simp_all add: allModalsClosed_def clickModalCloseButtons_def hasElements_def
      elementExists_def item_def clickElement_def example_page_document example_page_inside)

lemma example_page_V2:
  "handleLiveviewV2 (frozen example_page) now eff =
     Some (True, now + 60140, V2_styles example_page (perform (ClickEvent 6) eff))"
  by (simp add: handleLiveviewV2_frozen example_page_modals hasElements_def example_page_document)

lemma example_page_V2_styles:
  "styles (V2_styles example_page e) (1, ''maxWidth'') = Some ''100vw''"
  by (simp add: V2_styles_def run_all_def querySelector_def example_page_document
      setStyle_def perform_def)

lemma example_page_V3:
  "\<exists>t. handleLiveviewV3 (frozen example_page) now eff =
     Some (True, t, V3_camera_names example_page
        (snd (V3_dashboard_styles example_page
           (V3_base_styles example_page (perform (ClickEvent 6) eff)))))"
proof -
  obtain e4 where e4: "V3_dashboard_styles example_page
      (V3_base_styles example_page (perform (ClickEvent 6) eff)) = (True, e4)"
    using V3_dashboard_styles_fst[of example_page
        "V3_base_styles example_page (perform (ClickEvent 6) eff)"]
    by (cases "V3_dashboard_styles example_page
          (V3_base_styles example_page (perform (ClickEvent 6) eff))")
       (simp add: querySelector_def example_page_document)
  show ?thesis
    by (simp add: handleLiveviewV3_def frozen_apply default_wait_returns closeAllModals_frozen
        example_page_modals hasElements_def example_page_document e4)
qed

lemma example_page_V3_styles:
  "styles (V3_camera_names example_page e) (20, ''pointerEvents'') = Some ''none''"
  by (simp add: V3_camera_names_def run_all_def example_page_document setStyle_def perform_def)

lemma example_page_V4andV5:
  "\<exists>t. handleLiveviewV4andV5 (frozen example_page) now eff =
     Some (True, t, forEach_setStyle example_page V4_V5_ERROR_WRAPPER ''background-color'' ''black''
        (forEach_setStyle example_page V4_V5_OPTION_BUTTON ''display'' ''none''
           (V4_V5_styles example_page (perform (ClickEvent 6) eff))))"
  by (simp add: handleLiveviewV4andV5_def frozen_apply default_wait_returns slow_wait_returns
      closeAllModals_frozen example_page_modals hasElements_def example_page_document skip_def)

lemma example_page_V4andV5_styles:
  "styles (forEach_setStyle example_page V4_V5_ERROR_WRAPPER ''background-color'' ''black''
        (forEach_setStyle example_page V4_V5_OPTION_BUTTON ''display'' ''none'' e))
     (40, ''display'') = Some ''none''"
  by (simp add: forEach_setStyle_def example_page_document setStyle_def perform_def)

text \<open>
  Witness for C3: on the example page each driver succeeds and sets styles (the viewport
  width, the camera name buttons, the option buttons), and the second run, 4000 ms after the
  first has returned, succeeds with the same styles.
\<close>

theorem drivers_idempotent_witness:
  "(\<exists>t e. handleLiveviewV2 (frozen example_page) 0 no_effects = Some (True, t, e)
      \<and> styles e (1, ''maxWidth'') = Some ''100vw''
      \<and> (\<exists>t' e'. handleLiveviewV2 (frozen example_page) (t + TIMEOUTS_UI_ADJUSTMENT) e = Some (True, t', e')
                 \<and> styles e' = styles e))
   \<and> (\<exists>t e. handleLiveviewV3 (frozen example_page) 0 no_effects = Some (True, t, e)
      \<and> styles e (20, ''pointerEvents'') = Some ''none''
      \<and> (\<exists>t' e'. handleLiveviewV3 (frozen example_page) (t + TIMEOUTS_UI_ADJUSTMENT) e = Some (True, t', e')
                 \<and> styles e' = styles e))
   \<and> (\<exists>t e. handleLiveviewV4andV5 (frozen example_page) 0 no_effects = Some (True, t, e)
      \<and> styles e (40, ''display'') = Some ''none''
      \<and> (\<exists>t' e'. handleLiveviewV4andV5 (frozen example_page) (t + TIMEOUTS_UI_ADJUSTMENT) e
                   = Some (True, t', e')
                 \<and> styles e' = styles e))"
proof (intro conjI)
  note inst = drivers_idempotent[of example_page 0 no_effects None "''display''" "''none''"]
  from inst obtain r t e where
    a: "handleLiveviewV2 (frozen example_page) 0 no_effects = Some (r, t, e)"
    and b: "\<forall>now'. \<exists>t' e'. handleLiveviewV2 (frozen example_page) now' e = Some (r, t', e')
                         \<and> styles e' = styles e"
    by blast
  from a have "r = True" "e = V2_styles example_page (perform (ClickEvent 6) no_effects)"
    by (simp_all add: example_page_V2)
  with a b example_page_V2_styles
  show "\<exists>t e. handleLiveviewV2 (frozen example_page) 0 no_effects = Some (True, t, e)
      \<and> styles e (1, ''maxWidth'') = Some ''100vw''
      \<and> (\<exists>t' e'. handleLiveviewV2 (frozen example_page) (t + TIMEOUTS_UI_ADJUSTMENT) e = Some (True, t', e')
                 \<and> styles e' = styles e)"
    by blast
next
  note inst = drivers_idempotent[of example_page 0 no_effects None "''display''" "''none''"]
  from inst obtain r t e where
    a: "handleLiveviewV3 (frozen example_page) 0 no_effects = Some (r, t, e)"
    and b: "\<forall>now'. \<exists>t' e'. handleLiveviewV3 (frozen example_page) now' e = Some (r, t', e')
                         \<and> styles e' = styles e"
    by blast
  from a example_page_V3[of 0 no_effects]
  have "r = True" "e = V3_camera_names example_page
        (snd (V3_dashboard_styles example_page
           (V3_base_styles example_page (perform (ClickEvent 6) no_effects))))"
    by auto
  with a b example_page_V3_styles
  show "\<exists>t e. handleLiveviewV3 (frozen example_page) 0 no_effects = Some (True, t, e)
      \<and> styles e (20, ''pointerEvents'') = Some ''none''
      \<and> (\<exists>t' e'. handleLiveviewV3 (frozen example_page) (t + TIMEOUTS_UI_ADJUSTMENT) e = Some (True, t', e')
                 \<and> styles e' = styles e)"
    by blast
next
  note inst = drivers_idempotent[of example_page 0 no_effects None "''display''" "''none''"]
  from inst obtain r t e where
    a: "handleLiveviewV4andV5 (frozen example_page) 0 no_effects = Some (r, t, e)"
    and b: "\<forall>now'. \<exists>t' e'. handleLiveviewV4andV5 (frozen example_page) now' e = Some (r, t', e')
                         \<and> styles e' = styles e"
    by blast
  from a example_page_V4andV5[of 0 no_effects]
  have "r = True" "e = forEach_setStyle example_page V4_V5_ERROR_WRAPPER ''background-color'' ''black''
        (forEach_setStyle example_page V4_V5_OPTION_BUTTON ''display'' ''none''
           (V4_V5_styles example_page (perform (ClickEvent 6) no_effects)))"
    by auto
  with a b example_page_V4andV5_styles
  show "\<exists>t e. handleLiveviewV4andV5 (frozen example_page) 0 no_effects = Some (True, t, e)
      \<and> styles e (40, ''display'') = Some ''none''
      \<and> (\<exists>t' e'. handleLiveviewV4andV5 (frozen example_page) (t + TIMEOUTS_UI_ADJUSTMENT) e
                   = Some (True, t', e')
                 \<and> styles e' = styles e)"
    by blast
qed

subsection \<open>The driver for Protect 2.x\<close>

lemma clickModalCloseButtons_actions:
  "actions (clickModalCloseButtons doc e) = actions e @ modal_clicks doc"
proof -
  let ?h = "\<lambda>modalPortal.
      if elementExists (querySelectorAll_in doc modalPortal SELECTORS_MODAL_CLOSE_BUTTON) 0
      then clickElement doc (item (querySelectorAll_in doc modalPortal SELECTORS_MODAL_CLOSE_BUTTON) 0)
      else skip"
  have step: "actions (?h p e) = actions e @ modal_click doc p" for p e
    by (cases "querySelectorAll_in doc p SELECTORS_MODAL_CLOSE_BUTTON")
       (simp_all add: modal_click_def elementExists_def item_def clickElement_def perform_def skip_def)
  have all: "actions (fold ?h ps e) = actions e @ concat (map (modal_click doc) ps)" for ps e
  proof (induction ps arbitrary: e)
    case Nil
    show ?case by simp
  next
    case (Cons p ps)
    have "actions (fold ?h ps (?h p e)) = actions (?h p e) @ concat (map (modal_click doc) ps)"
      by (rule Cons.IH)
    then show ?case by (simp add: step)
  qed
  show ?thesis
  proof (cases "hasElements (querySelectorAll doc SELECTORS_MODAL_PORTAL)")
    case True
    then show ?thesis
      by (simp only: clickModalCloseButtons_def if_True all modal_clicks_def)
  next
    case False
    then show ?thesis
      by (simp add: clickModalCloseButtons_def modal_clicks_def hasElements_def)
  qed
qed

lemma clickModalCloseButtons_styles:
  "styles (clickModalCloseButtons doc e) = styles e"
proof -
  let ?h = "\<lambda>modalPortal.
      if elementExists (querySelectorAll_in doc modalPortal SELECTORS_MODAL_CLOSE_BUTTON) 0
      then clickElement doc (item (querySelectorAll_in doc modalPortal SELECTORS_MODAL_CLOSE_BUTTON) 0)
      else skip"
  have step: "styles (?h p e) = styles e" for p e
    by (simp add: clickElement_def perform_def skip_def Logger_error_def split: option.splits)
  have all: "styles (fold ?h ps e) = styles e" for ps e
  proof (induction ps arbitrary: e)
    case Nil
    show ?case by simp
  next
    case (Cons p ps)
    have "styles (fold ?h ps (?h p e)) = styles (?h p e)"
      by (rule Cons.IH)
    then show ?case by (simp add: step)
  qed
  show ?thesis
  proof (cases "hasElements (querySelectorAll doc SELECTORS_MODAL_PORTAL)")
    case True
    then show ?thesis
      by (simp only: clickModalCloseButtons_def if_True all)
  next
    case False
    then show ?thesis
      by (simp add: clickModalCloseButtons_def)
  qed
qed

lemma V2_styles_actions:
  "actions (V2_styles doc e) = actions e @ requested_actions (V2_requests doc)"
  by (cases "querySelector doc SELECTORS_HEADER"; cases "querySelector doc SELECTORS_NAV";
      cases "querySelector doc V2_VIEWPORT_WRAPPER")
     (simp_all add: V2_styles_def V2_requests_def run_all_def setStyle_def perform_def Logger_error_def)

lemma V2_styles_styles:
  "styles (V2_styles doc e) = requested_styles (V2_requests doc) (styles e)"
  by (cases "querySelector doc SELECTORS_HEADER"; cases "querySelector doc SELECTORS_NAV";
      cases "querySelector doc V2_VIEWPORT_WRAPPER")
     (simp_all add: V2_styles_def V2_requests_def run_all_def setStyle_def perform_def Logger_error_def)

text \<open>
  Claim C4, as stated: the driver for 2.x makes a single wait and does no modal handling. On
  the example page, which has an open modal dialog, it clicks the dialog's close control
  before it sets the styles, and it returns at 60140 ms: 120 ms for the wait for the
  viewport wrapper, and 60020 ms for a second wait, for the dialog to close, that times out.
\<close>

theorem handleLiveviewV2_handles_modals_counterexample:
  "map_option fst (handleLiveviewV2 (frozen example_page) 0 no_effects) = Some True
   \<and> map_option (fst \<circ> snd) (handleLiveviewV2 (frozen example_page) 0 no_effects) = Some 60140
   \<and> map_option (actions \<circ> snd \<circ> snd) (handleLiveviewV2 (frozen example_page) 0 no_effects)
       = Some [ClickEvent 6, SetStyle 2 ''display'' ''none'', SetStyle 3 ''display'' ''none'',
               SetStyle 1 ''maxWidth'' ''100vw'', SetStyle 1 ''maxHeight'' ''100vh'']"
  by (simp add: example_page_V2 V2_styles_def run_all_def querySelector_def example_page_document
      setStyle_def perform_def no_effects_def)

text \<open>
  Claim C4, amended. The driver for 2.x always returns. It returns true exactly when one of
  the polls of its wait for the viewport wrapper, within the default timeout, finds the
  wrapper; otherwise it returns false and has set no style and performed no action. When it
  returns true it has, after that wait, clicked the close control of every modal portal that
  has one, waited a second time, for the modals to be empty (whatever that wait resolves to),
  and then made exactly the four style requests: header and navigation hidden, the viewport
  wrapper's \<^verbatim>\<open>maxWidth\<close> 100vw and \<^verbatim>\<open>maxHeight\<close> 100vh. No other style is set.
\<close>

theorem handleLiveviewV2_protocol:
  "\<exists>r t e. handleLiveviewV2 w now eff = Some (r, t, e)
     \<and> (r \<longleftrightarrow> (\<exists>k\<ge>1. k * 100 < 60000
                  \<and> hasElements (querySelectorAll (w (now + k * 100)) V2_VIEWPORT_WRAPPER)))
     \<and> (\<not> r \<longrightarrow> styles e = styles eff \<and> actions e = actions eff)
     \<and> (r \<longrightarrow> (\<exists>t1 closed.
            waitUntil (\<lambda>t. returns (hasElements (querySelectorAll (w t) V2_VIEWPORT_WRAPPER)))
              TIMEOUTS_DEFAULT_WAIT TIMEOUTS_INTERVAL now = Some (True, t1)
          \<and> waitUntil (\<lambda>t. returns (allModalsClosed (w t)))
              TIMEOUTS_DEFAULT_WAIT TIMEOUTS_INTERVAL t1 = Some (closed, t)
          \<and> actions e = actions eff @ modal_clicks (w t1) @ requested_actions (V2_requests (w t))
          \<and> styles e = requested_styles (V2_requests (w t)) (styles eff)))"
proof -
  let ?c1 = "\<lambda>t. returns (hasElements (querySelectorAll (w t) V2_VIEWPORT_WRAPPER))"
  obtain r t1 where first: "waitUntil ?c1 TIMEOUTS_DEFAULT_WAIT TIMEOUTS_INTERVAL now = Some (r, t1)"
    using default_wait_settles by blast
  have "r \<longleftrightarrow> (\<exists>k\<ge>1. k * TIMEOUTS_INTERVAL < nat TIMEOUTS_DEFAULT_WAIT
            \<and> ?c1 (now + k * TIMEOUTS_INTERVAL) = Truthy)"
    by (rule waitUntil_result_iff[OF first]) (simp add: TIMEOUTS_DEFAULT_WAIT_def)
  then have iff: "r \<longleftrightarrow> (\<exists>k\<ge>1. k * 100 < 60000
                  \<and> hasElements (querySelectorAll (w (now + k * 100)) V2_VIEWPORT_WRAPPER))"
    by (simp add: returns_Truthy TIMEOUTS_DEFAULT_WAIT_def TIMEOUTS_INTERVAL_def)
  show ?thesis
  proof (cases r)
    case False
    with first have "handleLiveviewV2 w now eff
        = Some (False, t1, Logger_error ''Liveview not found for Protect 2.x'' eff)"
      by (simp add: handleLiveviewV2_def)
    moreover have "False \<longleftrightarrow> (\<exists>k\<ge>1. k * 100 < 60000
                  \<and> hasElements (querySelectorAll (w (now + k * 100)) V2_VIEWPORT_WRAPPER))"
      using iff False by simp
    ultimately show ?thesis
      by (intro exI[of _ False] exI[of _ t1]
            exI[of _ "Logger_error ''Liveview not found for Protect 2.x'' eff"] conjI)
         (simp_all add: Logger_error_def)
  next
    case True
    obtain closed t where second:
      "waitUntil (\<lambda>t. returns (allModalsClosed (w t)))
         TIMEOUTS_DEFAULT_WAIT TIMEOUTS_INTERVAL t1 = Some (closed, t)"
      using default_wait_settles by blast
    let ?e = "V2_styles (w t) (clickModalCloseButtons (w t1) eff)"
    from first True second have run: "handleLiveviewV2 w now eff = Some (True, t, ?e)"
      by (simp add: handleLiveviewV2_def closeAllModals_def)
    have "actions ?e = actions eff @ modal_clicks (w t1) @ requested_actions (V2_requests (w t))"
      by (simp add: V2_styles_actions clickModalCloseButtons_actions)
    moreover have "styles ?e = requested_styles (V2_requests (w t)) (styles eff)"
      by (simp add: V2_styles_styles clickModalCloseButtons_styles)
    moreover have "True \<longleftrightarrow> (\<exists>k\<ge>1. k * 100 < 60000
                  \<and> hasElements (querySelectorAll (w (now + k * 100)) V2_VIEWPORT_WRAPPER))"
      using iff True by simp
    moreover have "waitUntil ?c1 TIMEOUTS_DEFAULT_WAIT TIMEOUTS_INTERVAL now = Some (True, t1)"
      using first True by simp
    moreover note run second
    ultimately show ?thesis
      by (intro exI[of _ True] exI[of _ t] exI[of _ ?e] conjI impI exI[of _ t1] exI[of _ closed])
         simp_all
  qed
qed

text \<open>
  Witness for the amended C4: on the example page the driver clicks the close control and
  sets the four styles; the widgets (element 11) keep their style.
\<close>

theorem handleLiveviewV2_protocol_witness:
  "\<exists>t e. handleLiveviewV2 (frozen example_page) 0 no_effects = Some (True, t, e)
     \<and> actions e = [ClickEvent 6, SetStyle 2 ''display'' ''none'', SetStyle 3 ''display'' ''none'',
                    SetStyle 1 ''maxWidth'' ''100vw'', SetStyle 1 ''maxHeight'' ''100vh'']
     \<and> styles e (11, ''display'') = None"
proof -
  from handleLiveviewV2_protocol[of "frozen example_page" 0 no_effects]
  obtain r t e where
    a: "handleLiveviewV2 (frozen example_page) 0 no_effects = Some (r, t, e)"
    and b: "r \<longrightarrow> (\<exists>t1 closed.
            waitUntil (\<lambda>t. returns (hasElements (querySelectorAll (frozen example_page t) V2_VIEWPORT_WRAPPER)))
              TIMEOUTS_DEFAULT_WAIT TIMEOUTS_INTERVAL 0 = Some (True, t1)
          \<and> waitUntil (\<lambda>t. returns (allModalsClosed (frozen example_page t)))
              TIMEOUTS_DEFAULT_WAIT TIMEOUTS_INTERVAL t1 = Some (closed, t)
          \<and> actions e = actions no_effects @ modal_clicks (frozen example_page t1)
                          @ requested_actions (V2_requests (frozen example_page t))
          \<and> styles e = requested_styles (V2_requests (frozen example_page t)) (styles no_effects))"
    by blast
  from a have r: "r = True" by (simp add: example_page_V2)
  with b have acts: "actions e = actions no_effects @ modal_clicks example_page
                          @ requested_actions (V2_requests example_page)"
    and sty: "styles e = requested_styles (V2_requests example_page) (styles no_effects)"
    by (auto simp: frozen_apply)
  have "actions e = [ClickEvent 6, SetStyle 2 ''display'' ''none'', SetStyle 3 ''display'' ''none'',
                    SetStyle 1 ''maxWidth'' ''100vw'', SetStyle 1 ''maxHeight'' ''100vh'']"
    by (simp add: acts no_effects_def modal_clicks_def modal_click_def V2_requests_def
        querySelector_def example_page_document example_page_inside)
  moreover have "styles e (11, ''display'') = None"
    by (simp add: sty no_effects_def V2_requests_def querySelector_def example_page_document)
  ultimately show ?thesis using a r by blast
qed

section \<open>A run of the orchestrator\<close>

text \<open>
  On a dashboard page that shows \<^verbatim>\<open>Protect 4.1.0\<close> and nothing else, and stays so: no loading
  screen within 10 s, no login, the version is detected and the driver for 4.x/5.x selected;
  it gives up after 60 s, twice, 4 s apart; no session marker, so no watchdog.
\<close>

lemma loading_wait_returns:
  "waitUntil (\<lambda>t. returns b) TIMEOUTS_LOADING_TIMEOUT TIMEOUTS_INTERVAL now =
     Some (b, now + (if b then 120 else 10020))"
  using waitUntil_returns[of 10000 100 b now]
  by (simp add: TIMEOUTS_LOADING_TIMEOUT_def TIMEOUTS_INTERVAL_def TIMEOUTS_MIN_DELAY_def)

lemma version_page_document:
  "URL (version_page labels) = ''https://h/protect/dashboard/X''"
  "querySelectorAll (version_page labels) SELECTORS_VERSION_TEXT = [0..<length labels]"
  "querySelectorAll (version_page labels) SELECTORS_LOADING_SCREEN = []"
  "querySelectorAll (version_page labels) V4_V5_FULLSCREEN_WRAPPER = []"
  "localStorage_getItem (version_page labels) k = None"
  by (simp_all add: version_page_def SELECTORS_VERSION_TEXT_def SELECTORS_LOADING_SCREEN_def
      V4_V5_FULLSCREEN_WRAPPER_def)

lemma run_example:
  "run (frozen (version_page [''Protect 4.1.0''])) toNumber (Some example_config) 0 no_effects =
     Some (134180,
       \<lparr>styles = (\<lambda>k. None), actions = [],
        errors = [''Liveview not found for Protect 4.x/5.x'',
                  ''Liveview not found for Protect 4.x/5.x'']\<rparr>)"
proof -
  let ?doc = "version_page [''Protect 4.1.0'']"
  have version: "detectedVersion ?doc = ''Protect 4.1.0''"
    by (simp add: detectedVersion_def getProtectVersion_find version_page_document)
       (simp add: version_page_def)
  have driver: "handleLiveviewV4andV5 (frozen ?doc) now eff =
      Some (False, now + 60020, Logger_error ''Liveview not found for Protect 4.x/5.x'' eff)"
    for now eff
    by (simp add: handleLiveviewV4andV5_def frozen_apply default_wait_returns hasElements_def
        version_page_document)
  have layout: "applyLayout (frozen ?doc) ''Protect 4.1.0'' now eff =
      Some (now + 124040, Logger_error ''Liveview not found for Protect 4.x/5.x''
              (Logger_error ''Liveview not found for Protect 4.x/5.x'' eff))"
    for now eff
    by (simp add: applyLayout_def checkUrl_def frozen_apply version_page_document classify_def
        twice_def driver TIMEOUTS_UI_ADJUSTMENT_def)
  have watchdog: "sessionWatchdog (frozen ?doc) toNumber example_config now eff = Some (now, eff)"
    for now eff
    by (simp add: sessionWatchdog_def frozen_apply version_page_document falsy_def)
  show ?thesis
    by (simp add: run_def checkUrl_def frozen_apply version_page_document example_config_def
        loading_wait_returns hasElements_def version layout)
       (simp add: watchdog[unfolded example_config_def] Logger_error_def no_effects_def)
qed

section \<open>A version whose minor component is 3\<close>


lemma version_page_without_live_view:
  "querySelectorAll (version_page labels) V3_LIVE_VIEW_WRAPPER = []"
  by (simp add: version_page_def SELECTORS_VERSION_TEXT_def V3_LIVE_VIEW_WRAPPER_def)

text \<open>
  Claim C2. The claim sends a version that contains \<open>4.\<close> or \<open>5.\<close> to the driver for 4.x and
  5.x, and the comments of \<^verbatim>\<open>run\<close> (\<^verbatim>\<open>Handle version 3.x\<close>, \<^verbatim>\<open>Handle version 4.x or 5.x\<close>) dispatch
  by major version too. The code does not: its first test, \<^verbatim>\<open>version.includes('3.')\<close>, also
  matches a minor or patch component. On a dashboard page that shows the label
  \<^verbatim>\<open>Protect 5.3.41\<close>, that label is what \<^verbatim>\<open>getProtectVersion\<close> returns and what is classified; it
  contains \<open>5.\<close>, and it gets the driver for 3.x, which is run twice and fails twice for want
  of the 3.x live view. \<^verbatim>\<open>Protect 4.3.0\<close> is classified the same way.
\<close>

theorem minor_version_3_gets_3x_driver:
  "getProtectVersion (version_page [''Protect 5.3.41'']) = Some ''Protect 5.3.41''
   \<and> detectedVersion (version_page [''Protect 5.3.41'']) = ''Protect 5.3.41''
   \<and> str_includes ''Protect 5.3.41'' ''5.''
   \<and> classify (detectedVersion (version_page [''Protect 5.3.41''])) = Gen3
   \<and> str_includes ''Protect 4.3.0'' ''4.''
   \<and> classify ''Protect 4.3.0'' = Gen3
   \<and> applyLayout (frozen (version_page [''Protect 5.3.41'']))
        (detectedVersion (version_page [''Protect 5.3.41''])) 10140 no_effects
       = twice (handleLiveviewV3 (frozen (version_page [''Protect 5.3.41'']))) 10140 no_effects
   \<and> run (frozen (version_page [''Protect 5.3.41''])) decimal (Some example_config) 0 no_effects
       = Some (134180,
           no_effects\<lparr>errors := [''Liveview not found for Protect 3.x'',
                                  ''Liveview not found for Protect 3.x'']\<rparr>)"
proof -
  let ?doc = "version_page [''Protect 5.3.41'']"
  have found: "getProtectVersion ?doc = Some ''Protect 5.3.41''"
    by (simp add: getProtectVersion_find version_page_document) (simp add: version_page_def)
  then have version: "detectedVersion ?doc = ''Protect 5.3.41''"
    by (simp add: detectedVersion_def)
  have gen: "classify ''Protect 5.3.41'' = Gen3"
    by (simp add: classify_def)
  have dashboard: "checkUrl (frozen ?doc now) ''protect/dashboard''" for now
    by (simp add: checkUrl_def frozen_apply version_page_document)
  have dispatch: "applyLayout (frozen ?doc) ''Protect 5.3.41'' now eff
      = twice (handleLiveviewV3 (frozen ?doc)) now eff" for now eff
    by (simp add: applyLayout_def dashboard gen)
  have driver: "handleLiveviewV3 (frozen ?doc) now eff =
      Some (False, now + 60020, Logger_error ''Liveview not found for Protect 3.x'' eff)"
    for now eff
    by (simp add: handleLiveviewV3_def frozen_apply default_wait_returns hasElements_def
        version_page_without_live_view)
  have layout: "applyLayout (frozen ?doc) ''Protect 5.3.41'' now eff =
      Some (now + 124040, Logger_error ''Liveview not found for Protect 3.x''
              (Logger_error ''Liveview not found for Protect 3.x'' eff))"
    for now eff
    by (simp add: dispatch twice_def driver TIMEOUTS_UI_ADJUSTMENT_def)
  have watchdog: "sessionWatchdog (frozen ?doc) decimal c now eff = Some (now, eff)"
    for c now eff
    by (simp add: sessionWatchdog_def frozen_apply version_page_document falsy_def)
  have run: "run (frozen ?doc) decimal (Some example_config) 0 no_effects
       = Some (134180,
           no_effects\<lparr>errors := [''Liveview not found for Protect 3.x'',
                                  ''Liveview not found for Protect 3.x'']\<rparr>)"
    by (simp add: run_def checkUrl_def frozen_apply version_page_document example_config_def
        loading_wait_returns hasElements_def version layout watchdog)
       (simp add: Logger_error_def no_effects_def)
  show ?thesis
    by (simp only: found version gen dispatch run) (simp add: classify_def)
qed

end
